theory Spec2Isabelle
  imports Main
begin

section \<open>Prisma enhanced remediation runbooks\<close>

text \<open>
  The four runbooks \<^verbatim>\<open>AWS-EC2-001\<close>, \<^verbatim>\<open>AWS-RDS-005\<close>, \<^verbatim>\<open>AWS-ELB-013\<close> and
  \<^verbatim>\<open>AWS-ELB-015\<close> are short Python procedures that talk to the provider through
  boto3 clients and report through \<^verbatim>\<open>print\<close>. The embedding makes both effects
  explicit: a run of a procedure yields either its return value or the Python
  exception that escapes it, together with the ordered list of API calls issued and
  lines printed. A client is a record of functions giving, for each request, what
  the provider answers: a \<^verbatim>\<open>ClientError\<close> or a response. The clients that
  \<^verbatim>\<open>session.client\<close> hands out are parameters of the entry points, as is the alert, a
  record of the two fields every runbook reads; \<^verbatim>\<open>lambda_context\<close> is never used.
\<close>

subsection \<open>Python values, exceptions and effects\<close>

datatype py_exception = KeyError string | IndexError

text \<open>\<^verbatim>\<open>e.response['Error']\<close> of a botocore \<^verbatim>\<open>ClientError\<close>.\<close>

record client_error =
  Code :: string
  Message :: string

text \<open>A document as \<^verbatim>\<open>json.dumps\<close> receives it; a dict keeps its insertion order.\<close>

datatype json = JString string | JArray "json list" | JObject "(string \<times> json) list"

text \<open>The \<^verbatim>\<open>AccessLog\<close> structure of the classic load-balancer API.\<close>

record access_log =
  Enabled :: "bool option"
  S3BucketName :: "string option"
  EmitInterval :: "int option"
  S3BucketPrefix :: "string option"

text \<open>One entry of the flat attribute list of the v2 load-balancer API.\<close>

record elbv2_attribute =
  Key :: "string option"
  Value :: "string option"

datatype api_call =
    DescribeSnapshots string
  | CreateSnapshot string string
  | DescribeDBInstances string
  | ModifyDBInstance string bool
  | DescribeLoadBalancerAttributes string
  | ModifyLoadBalancerAttributes string access_log
  | GetCallerIdentity
  | DescribeLoadBalancers "string list"
  | DescribeLoadBalancerAttributesV2 string
  | ModifyLoadBalancerAttributesV2 string "elbv2_attribute list"
  | CreateBucket string string "string option"
  | PutObject string string
  | PutBucketPolicy string json

datatype event = Call api_call | Print string

type_synonym 'a run = "(py_exception + 'a) \<times> event list"

definition returns :: "'a \<Rightarrow> 'a run" where
  "returns v = (Inr v, [])"

definition raises :: "py_exception \<Rightarrow> 'a run" where
  "raises e = (Inl e, [])"

definition print :: "string \<Rightarrow> unit run" where
  "print s = (Inr (), [Print s])"

text \<open>Issuing a request: the call is recorded, the provider's answer is the value.\<close>

definition call :: "api_call \<Rightarrow> 'r \<Rightarrow> 'r run" where
  "call c answer = (Inr answer, [Call c])"

text \<open>Sequencing: an exception ends the run, keeping what happened before it.\<close>

definition seq :: "'a run \<Rightarrow> ('a \<Rightarrow> 'b run) \<Rightarrow> 'b run" where
  "seq m f =
     (case m of
        (Inl e, t) \<Rightarrow> (Inl e, t)
      | (Inr v, t) \<Rightarrow> (case f v of (r, t') \<Rightarrow> (r, t @ t')))"

text \<open>\<^verbatim>\<open>d[k]\<close> on a dict whose key \<open>k\<close> may be absent.\<close>

definition subscript :: "string \<Rightarrow> 'a option \<Rightarrow> 'a run" where
  "subscript k field = (case field of None \<Rightarrow> raises (KeyError k) | Some v \<Rightarrow> returns v)"

text \<open>\<^verbatim>\<open>xs[i]\<close> for a non-negative literal index.\<close>

definition py_item :: "'a list \<Rightarrow> nat \<Rightarrow> 'a run" where
  "py_item xs i = (if i < length xs then returns (xs ! i) else raises IndexError)"

text \<open>\<^verbatim>\<open>s.split(sep)\<close> for a one-character separator.\<close>

fun py_split :: "char \<Rightarrow> string \<Rightarrow> string list" where
  "py_split sep [] = [[]]"
| "py_split sep (c # cs) =
     (if c = sep then [] # py_split sep cs
      else (case py_split sep cs of
              [] \<Rightarrow> [[c]]
            | w # ws \<Rightarrow> (c # w) # ws))"

text \<open>\<^verbatim>\<open>sub in s\<close> on strings.\<close>

fun starts_with :: "string \<Rightarrow> string \<Rightarrow> bool" where
  "starts_with s [] = True"
| "starts_with [] (p # ps) = False"
| "starts_with (c # cs) (p # ps) = (c = p \<and> starts_with cs ps)"

fun py_in :: "string \<Rightarrow> string \<Rightarrow> bool" where
  "py_in sub [] = (sub = [])"
| "py_in sub (c # cs) = (starts_with (c # cs) sub \<or> py_in sub cs)"

record alert =
  alert_resource_id :: string
  alert_region :: string

subsection \<open>AWS-EC2-001: EBS volume does not have a recent snapshot\<close>

text \<open>
  A \<^verbatim>\<open>datetime\<close> is its calendar day (the proleptic ordinal of \<^verbatim>\<open>.date()\<close>) and the
  second within that day; the difference of two dates has \<^verbatim>\<open>.days\<close> the difference of
  the ordinals. \<^verbatim>\<open>date.today()\<close> is a parameter of the run.
\<close>

record datetime =
  day_ordinal :: int
  second_of_day :: nat

definition date :: "datetime \<Rightarrow> int" where
  "date t = day_ordinal t"

record snapshot =
  StartTime :: "datetime option"

record describe_snapshots_response =
  Snapshots :: "snapshot list option"

record create_snapshot_response =
  SnapshotId :: "string option"

record ec2_client =
  describe_snapshots :: "string \<Rightarrow> client_error + describe_snapshots_response"
  create_snapshot :: "string \<Rightarrow> string \<Rightarrow> client_error + create_snapshot_response"

definition snapshot_age :: int where
  "snapshot_age = 15"

definition new_ebs_snapshot :: "ec2_client \<Rightarrow> string \<Rightarrow> unit run" where
  "new_ebs_snapshot ec2 volume_id =
     seq (call (CreateSnapshot volume_id ''Autoremediate snapshot'')
            (create_snapshot ec2 volume_id ''Autoremediate snapshot''))
       (\<lambda>answer. case answer of
          Inr response \<Rightarrow>
            seq (subscript ''SnapshotId'' (SnapshotId response)) (\<lambda>snapshot_id.
              print (''New snapshot '' @ snapshot_id @ '' created for EBS Volume ''
                       @ volume_id @ ''.''))
        | Inl e \<Rightarrow> print (Message e))"

definition remediate_EC2_001 :: "ec2_client \<Rightarrow> int \<Rightarrow> alert \<Rightarrow> unit run" where
  "remediate_EC2_001 ec2 today alert =
     (let volume_id = alert_resource_id alert in
      seq (call (DescribeSnapshots volume_id) (describe_snapshots ec2 volume_id))
        (\<lambda>answer. case answer of
           Inl e \<Rightarrow> print (Message e)
         | Inr response \<Rightarrow>
             seq (subscript ''Snapshots'' (Snapshots response)) (\<lambda>snapshot.
             seq (case snapshot of
                    s # _ \<Rightarrow>
                      seq (subscript ''StartTime'' (StartTime s)) (\<lambda>start_time.
                        let snap_date = date start_time;
                            delta = today - snap_date
                        in returns (delta \<ge> snapshot_age))
                  | [] \<Rightarrow> returns True)
               (\<lambda>snapshot_needed.
                  if snapshot_needed then new_ebs_snapshot ec2 volume_id
                  else returns ()))))"

subsection \<open>AWS-RDS-005: RDS database publicly accessible\<close>

record db_instance =
  PubliclyAccessible :: "bool option"
  DBInstanceIdentifier :: "string option"

record describe_db_instances_response =
  DBInstances :: "db_instance list option"

record rds_client =
  describe_db_instances :: "string \<Rightarrow> client_error + describe_db_instances_response"
  modify_db_instance :: "string \<Rightarrow> bool \<Rightarrow> client_error + unit"

text \<open>
  \<^verbatim>\<open>db_instance[0]['PubliclyAccessible']\<close> under \<^verbatim>\<open>except (KeyError, IndexError)\<close>:
  both failures give \<^verbatim>\<open>False\<close>.
\<close>

definition public_flag :: "db_instance list \<Rightarrow> bool" where
  "public_flag db_instance =
     (case db_instance of
        [] \<Rightarrow> False
      | i # _ \<Rightarrow> (case PubliclyAccessible i of None \<Rightarrow> False | Some b \<Rightarrow> b))"

definition remediate_RDS_005 :: "rds_client \<Rightarrow> alert \<Rightarrow> unit run" where
  "remediate_RDS_005 rds alert =
     (let resource_id = alert_resource_id alert in
      seq (call (DescribeDBInstances resource_id) (describe_db_instances rds resource_id))
        (\<lambda>answer. case answer of
           Inl e \<Rightarrow> print (Message e)
         | Inr response \<Rightarrow>
             seq (subscript ''DBInstances'' (DBInstances response)) (\<lambda>db_instance.
               let public = public_flag db_instance in
               if public then
                 seq (py_item db_instance 0) (\<lambda>first.
                 seq (subscript ''DBInstanceIdentifier'' (DBInstanceIdentifier first))
                   (\<lambda>instance_id.
                 seq (call (ModifyDBInstance instance_id False)
                        (modify_db_instance rds instance_id False))
                   (\<lambda>modified. case modified of
                      Inl e \<Rightarrow> print (Message e)
                    | Inr _ \<Rightarrow>
                        print (''Removed public attribute from RDS instance ''
                                 @ instance_id @ ''.''))))
               else returns ())))"

subsection \<open>Object storage, shared by the two load-balancer runbooks\<close>

text \<open>
  \<^verbatim>\<open>create_bucket(ACL, Bucket, CreateBucketConfiguration)\<close>, the last argument being the
  location constraint when one is passed; \<^verbatim>\<open>put_object(Bucket, Key)\<close> with no body, which
  stores an empty object; \<^verbatim>\<open>put_bucket_policy(Bucket, Policy)\<close>, whose policy is the
  document handed to \<^verbatim>\<open>json.dumps\<close>.
\<close>

record s3_client =
  create_bucket :: "string \<Rightarrow> string \<Rightarrow> string option \<Rightarrow> client_error + unit"
  put_object :: "string \<Rightarrow> string \<Rightarrow> client_error + unit"
  put_bucket_policy :: "string \<Rightarrow> json \<Rightarrow> client_error + unit"

subsection \<open>AWS-ELB-013: classic load balancer access log\<close>

text \<open>
  \<^verbatim>\<open>BucketTemplate.BucketPolicy(bucket_name, account_id, region)\<close> is called on the class,
  so \<^verbatim>\<open>self\<close> is the bucket name.
\<close>

definition BucketPolicy_ELB_013 :: "string \<Rightarrow> string \<Rightarrow> string \<Rightarrow> json" where
  "BucketPolicy_ELB_013 self account_id region =
     (let elb_account_id =
           if region = ''ap-northeast-1'' then ''582318560864''
           else if region = ''ap-northeast-2'' then ''600734575887''
           else if region = ''ap-northeast-3'' then ''383597477331''
           else if region = ''ap-south-1'' then ''718504428378''
           else if region = ''ap-southeast-1'' then ''114774131450''
           else if region = ''ap-southeast-2'' then ''783225319266''
           else if region = ''ca-central-1'' then ''985666609251''
           else if region = ''eu-central-1'' then ''054676820928''
           else if region = ''eu-west-1'' then ''156460612806''
           else if region = ''eu-west-2'' then ''652711504416''
           else if region = ''eu-west-3'' then ''009996457667''
           else if region = ''sa-east-1'' then ''507241528517''
           else if region = ''us-east-1'' then ''127311923021''
           else if region = ''us-east-2'' then ''033677994240''
           else if region = ''us-west-1'' then ''027434742980''
           else if region = ''us-west-2'' then ''797873946194''
           else ''123456789012''
      in JObject
        [(''Version'', JString ''2012-10-17''),
         (''Statement'', JArray
            [JObject
               [(''Sid'', JString ''ELBLoggingPolicy''),
                (''Effect'', JString ''Allow''),
                (''Principal'', JObject
                   [(''AWS'', JString (''arn:aws:iam::'' @ elb_account_id @ '':root''))]),
                (''Action'', JString ''s3:PutObject''),
                (''Resource'', JString
                   (''arn:aws:s3:::'' @ self @ ''/*/AWSLogs/'' @ account_id @ ''/*''))],
             JObject
               [(''Effect'', JString ''Allow''),
                (''Principal'', JObject
                   [(''Service'', JString ''delivery.logs.amazonaws.com'')]),
                (''Action'', JString ''s3:PutObject''),
                (''Resource'', JString
                   (''arn:aws:s3:::'' @ self @ ''/*/AWSLogs/'' @ account_id @ ''/*'')),
                (''Condition'', JObject
                   [(''StringEquals'', JObject
                       [(''s3:x-amz-acl'', JString ''bucket-owner-full-control'')])])],
             JObject
               [(''Effect'', JString ''Allow''),
                (''Principal'', JObject
                   [(''Service'', JString ''delivery.logs.amazonaws.com'')]),
                (''Action'', JString ''s3:GetBucketAcl''),
                (''Resource'', JString (''arn:aws:s3:::'' @ self))]])])"

text \<open>
  The first \<^verbatim>\<open>try\<close> of \<^verbatim>\<open>new_s3_bucket\<close> either falls through to the next step or
  returns \<^verbatim>\<open>'fail'\<close>; the boolean \<open>proceed\<close> is that choice.
\<close>

definition new_s3_bucket_ELB_013 :: "s3_client \<Rightarrow> string \<Rightarrow> string \<Rightarrow> string \<Rightarrow> string run" where
  "new_s3_bucket_ELB_013 s3 elb_name account_id region =
     (let bucket_name = ''elblogs-'' @ account_id @ ''-'' @ region;
          location = (if region = ''us-east-1'' then None else Some region)
      in
      seq (call (CreateBucket ''private'' bucket_name location)
             (create_bucket s3 ''private'' bucket_name location))
        (\<lambda>created.
      seq (case created of
             Inr _ \<Rightarrow> seq (print (''New S3 bucket created: '' @ bucket_name))
                        (\<lambda>_. returns True)
           | Inl e \<Rightarrow>
               if Code e = ''BucketAlreadyExists'' then
                 seq (print (''Using existing S3 bucket: '' @ bucket_name))
                   (\<lambda>_. returns True)
               else if Code e = ''BucketAlreadyOwnedByYou'' then
                 seq (print (''Using already owned and existing S3 bucket: '' @ bucket_name))
                   (\<lambda>_. returns True)
               else seq (print (Message e)) (\<lambda>_. returns False))
        (\<lambda>proceed.
      if \<not> proceed then returns ''fail''
      else
      seq (call (PutObject bucket_name (elb_name @ ''/''))
             (put_object s3 bucket_name (elb_name @ ''/'')))
        (\<lambda>folder. case folder of
           Inl e \<Rightarrow> seq (print (Message e)) (\<lambda>_. returns ''fail'')
         | Inr _ \<Rightarrow>
      (let policy = BucketPolicy_ELB_013 bucket_name account_id region in
      seq (call (PutBucketPolicy bucket_name policy)
             (put_bucket_policy s3 bucket_name policy))
        (\<lambda>attached. case attached of
           Inl e \<Rightarrow>
             seq (if py_in ''Invalid principal'' (Message e) then
                    print (''Invalid principal: Check the AWS ELB Account Id for the ''
                             @ region @ '' region.'')
                  else print (Message e))
               (\<lambda>_. returns ''fail'')
         | Inr _ \<Rightarrow> returns bucket_name))))))"

record get_caller_identity_response =
  Account :: "string option"

record sts_client =
  get_caller_identity :: "client_error + get_caller_identity_response"

definition get_account_id :: "sts_client \<Rightarrow> string run" where
  "get_account_id sts =
     seq (call GetCallerIdentity (get_caller_identity sts))
       (\<lambda>answer. case answer of
          Inr response \<Rightarrow> subscript ''Account'' (Account response)
        | Inl e \<Rightarrow> seq (print (Message e)) (\<lambda>_. returns ''fail''))"

record load_balancer_attributes =
  AccessLog :: "access_log option"

record describe_load_balancer_attributes_response =
  LoadBalancerAttributes :: "load_balancer_attributes option"

record elb_client =
  describe_load_balancer_attributes ::
    "string \<Rightarrow> client_error + describe_load_balancer_attributes_response"
  modify_load_balancer_attributes :: "string \<Rightarrow> access_log \<Rightarrow> client_error + unit"

definition enable_access_log_ELB_013 ::
    "elb_client \<Rightarrow> string \<Rightarrow> string \<Rightarrow> string \<Rightarrow> unit run" where
  "enable_access_log_ELB_013 elb elb_name bucket_name region =
     (let attributes =
            \<lparr>Enabled = Some True, S3BucketName = Some bucket_name,
             EmitInterval = Some 60, S3BucketPrefix = Some elb_name\<rparr>
      in
      seq (call (ModifyLoadBalancerAttributes elb_name attributes)
             (modify_load_balancer_attributes elb elb_name attributes))
        (\<lambda>result. case result of
           Inl e \<Rightarrow>
             if py_in ''Access Denied'' (Message e) then
               print (''Access Denied: Check the AWS ELB Account Id for the ''
                        @ region @ '' region.'')
             else print (Message e)
         | Inr _ \<Rightarrow> print (''Enabled Access Log for ELB '' @ elb_name @ ''.'')))"

definition remediate_ELB_013 ::
    "elb_client \<Rightarrow> s3_client \<Rightarrow> sts_client \<Rightarrow> alert \<Rightarrow> unit run" where
  "remediate_ELB_013 elb s3 sts alert =
     (let arn = alert_resource_id alert in
      seq (py_item (py_split CHR ''/'' arn) 1) (\<lambda>elb_name.
      let region = alert_region alert in
      seq (call (DescribeLoadBalancerAttributes elb_name)
             (describe_load_balancer_attributes elb elb_name))
        (\<lambda>answer. case answer of
           Inl e \<Rightarrow> print (Message e)
         | Inr response \<Rightarrow>
      seq (subscript ''LoadBalancerAttributes'' (LoadBalancerAttributes response))
        (\<lambda>attribs.
      seq (subscript ''AccessLog'' (AccessLog attribs)) (\<lambda>logging.
      seq (subscript ''Enabled'' (Enabled logging)) (\<lambda>enabled.
      if enabled \<noteq> True then
        seq (get_account_id sts) (\<lambda>account_id.
        seq (if account_id \<noteq> ''fail''
             then new_s3_bucket_ELB_013 s3 elb_name account_id region
             else returns ''fail'')
          (\<lambda>bucket_name.
        if bucket_name \<noteq> ''fail''
        then enable_access_log_ELB_013 elb elb_name bucket_name region
        else returns ()))
      else returns ()))))))"

subsection \<open>AWS-ELB-015: application (v2) load balancer access log\<close>

definition BucketPolicy_ELB_015 :: "string \<Rightarrow> string \<Rightarrow> string \<Rightarrow> json" where
  "BucketPolicy_ELB_015 self account_id region =
     (let elb_account_id =
           if region = ''ap-northeast-1'' then ''582318560864''
           else if region = ''ap-northeast-2'' then ''600734575887''
           else if region = ''ap-northeast-3'' then ''383597477331''
           else if region = ''ap-south-1'' then ''718504428378''
           else if region = ''ap-southeast-1'' then ''114774131450''
           else if region = ''ap-southeast-2'' then ''783225319266''
           else if region = ''ca-central-1'' then ''985666609251''
           else if region = ''eu-central-1'' then ''054676820928''
           else if region = ''eu-west-1'' then ''156460612806''
           else if region = ''eu-west-2'' then ''652711504416''
           else if region = ''eu-west-3'' then ''009996457667''
           else if region = ''sa-east-1'' then ''507241528517''
           else if region = ''us-east-1'' then ''127311923021''
           else if region = ''us-east-2'' then ''033677994240''
           else if region = ''us-west-1'' then ''027434742980''
           else if region = ''us-west-2'' then ''797873946194''
           else ''123456789012''
      in JObject
        [(''Version'', JString ''2012-10-17''),
         (''Statement'', JArray
            [JObject
               [(''Sid'', JString ''ELBLoggingPolicy''),
                (''Effect'', JString ''Allow''),
                (''Principal'', JObject
                   [(''AWS'', JString (''arn:aws:iam::'' @ elb_account_id @ '':root''))]),
                (''Action'', JString ''s3:PutObject''),
                (''Resource'', JString
                   (''arn:aws:s3:::'' @ self @ ''/*/AWSLogs/'' @ account_id @ ''/*''))],
             JObject
               [(''Effect'', JString ''Allow''),
                (''Principal'', JObject
                   [(''Service'', JString ''delivery.logs.amazonaws.com'')]),
                (''Action'', JString ''s3:PutObject''),
                (''Resource'', JString
                   (''arn:aws:s3:::'' @ self @ ''/*/AWSLogs/'' @ account_id @ ''/*'')),
                (''Condition'', JObject
                   [(''StringEquals'', JObject
                       [(''s3:x-amz-acl'', JString ''bucket-owner-full-control'')])])],
             JObject
               [(''Effect'', JString ''Allow''),
                (''Principal'', JObject
                   [(''Service'', JString ''delivery.logs.amazonaws.com'')]),
                (''Action'', JString ''s3:GetBucketAcl''),
                (''Resource'', JString (''arn:aws:s3:::'' @ self))]])])"

definition new_s3_bucket_ELB_015 :: "s3_client \<Rightarrow> string \<Rightarrow> string \<Rightarrow> string \<Rightarrow> string run" where
  "new_s3_bucket_ELB_015 s3 elb_name account_id region =
     (let bucket_name = ''elbv2logs-'' @ account_id @ ''-'' @ region;
          location = (if region = ''us-east-1'' then None else Some region)
      in
      seq (call (CreateBucket ''private'' bucket_name location)
             (create_bucket s3 ''private'' bucket_name location))
        (\<lambda>created.
      seq (case created of
             Inr _ \<Rightarrow> seq (print (''New S3 bucket created: '' @ bucket_name))
                        (\<lambda>_. returns True)
           | Inl e \<Rightarrow>
               if Code e = ''BucketAlreadyExists'' then
                 seq (print (''Using existing S3 bucket: '' @ bucket_name))
                   (\<lambda>_. returns True)
               else if Code e = ''BucketAlreadyOwnedByYou'' then
                 seq (print (''Using already owned and existing S3 bucket: '' @ bucket_name))
                   (\<lambda>_. returns True)
               else seq (print (Message e)) (\<lambda>_. returns False))
        (\<lambda>proceed.
      if \<not> proceed then returns ''fail''
      else
      seq (call (PutObject bucket_name (elb_name @ ''/''))
             (put_object s3 bucket_name (elb_name @ ''/'')))
        (\<lambda>folder. case folder of
           Inl e \<Rightarrow> seq (print (Message e)) (\<lambda>_. returns ''fail'')
         | Inr _ \<Rightarrow>
      (let policy = BucketPolicy_ELB_015 bucket_name account_id region in
      seq (call (PutBucketPolicy bucket_name policy)
             (put_bucket_policy s3 bucket_name policy))
        (\<lambda>attached. case attached of
           Inl e \<Rightarrow>
             seq (if py_in ''Invalid principal'' (Message e) then
                    print (''Invalid principal: Check the AWS ELB Account Id for the ''
                             @ region @ '' region.'')
                  else print (Message e))
               (\<lambda>_. returns ''fail'')
         | Inr _ \<Rightarrow> returns bucket_name))))))"

record load_balancer =
  LoadBalancerArn :: "string option"

record describe_load_balancers_response =
  LoadBalancers :: "load_balancer list option"

record describe_attributes_response =
  Attributes :: "elbv2_attribute list option"

record elbv2_client =
  describe_load_balancers :: "string list \<Rightarrow> client_error + describe_load_balancers_response"
  describe_load_balancer_attributes_v2 ::
    "string \<Rightarrow> client_error + describe_attributes_response"
  modify_load_balancer_attributes_v2 ::
    "string \<Rightarrow> elbv2_attribute list \<Rightarrow> client_error + unit"

definition enable_access_log_ELB_015 ::
    "elbv2_client \<Rightarrow> string \<Rightarrow> string \<Rightarrow> string \<Rightarrow> string \<Rightarrow> unit run" where
  "enable_access_log_ELB_015 elbv2 elb_arn elb_name bucket_name region =
     (let attributes =
            [\<lparr>Key = Some ''access_logs.s3.enabled'', Value = Some ''true''\<rparr>,
             \<lparr>Key = Some ''access_logs.s3.bucket'', Value = Some bucket_name\<rparr>,
             \<lparr>Key = Some ''access_logs.s3.prefix'', Value = Some elb_name\<rparr>]
      in
      seq (call (ModifyLoadBalancerAttributesV2 elb_arn attributes)
             (modify_load_balancer_attributes_v2 elbv2 elb_arn attributes))
        (\<lambda>result. case result of
           Inl e \<Rightarrow>
             if py_in ''Access Denied'' (Message e) then
               print (''Access Denied: Check the AWS ELB Account Id for the ''
                        @ region @ '' region.'')
             else print (Message e)
         | Inr _ \<Rightarrow> print (''Enabled Access Log for Application ELB '' @ elb_name @ ''.'')))"

text \<open>
  The loop over the attribute list: \<open>logging\<close> is the value held so far, and every
  entry whose key is \<^verbatim>\<open>access_logs.s3.enabled\<close> overwrites it.
\<close>

fun scan_attribs :: "elbv2_attribute list \<Rightarrow> string \<Rightarrow> string run" where
  "scan_attribs [] logging = returns logging"
| "scan_attribs (attrib # attribs) logging =
     (case Key attrib of
        None \<Rightarrow> raises (KeyError ''Key'')
      | Some k \<Rightarrow>
          if k = ''access_logs.s3.enabled'' then
            (case Value attrib of
               None \<Rightarrow> raises (KeyError ''Value'')
             | Some v \<Rightarrow> scan_attribs attribs v)
          else scan_attribs attribs logging)"

definition remediate_ELB_015 :: "elbv2_client \<Rightarrow> s3_client \<Rightarrow> alert \<Rightarrow> unit run" where
  "remediate_ELB_015 elbv2 s3 alert =
     (let arn = alert_resource_id alert in
      seq (py_item (py_split CHR ''/'' arn) 2) (\<lambda>elb_name.
      let region = alert_region alert in
      seq (call (DescribeLoadBalancers [elb_name]) (describe_load_balancers elbv2 [elb_name]))
        (\<lambda>answer. case answer of
           Inl e \<Rightarrow> print (Message e)
         | Inr response \<Rightarrow>
      seq (subscript ''LoadBalancers'' (LoadBalancers response)) (\<lambda>elb.
      case (case elb of [] \<Rightarrow> None | lb # _ \<Rightarrow> LoadBalancerArn lb) of
        None \<Rightarrow>
          print (''Error: Unable to find the ARN for Application ELB '' @ elb_name @ ''.'')
      | Some elb_arn \<Rightarrow>
      seq (py_item (py_split CHR '':'' elb_arn) 4) (\<lambda>account_id.
      seq (call (DescribeLoadBalancerAttributesV2 elb_arn)
             (describe_load_balancer_attributes_v2 elbv2 elb_arn))
        (\<lambda>answer. case answer of
           Inl e \<Rightarrow> print (Message e)
         | Inr response \<Rightarrow>
      seq (subscript ''Attributes'' (Attributes response)) (\<lambda>attribs.
      seq (scan_attribs attribs ''none'') (\<lambda>logging.
      if logging \<noteq> ''true'' then
        seq (new_s3_bucket_ELB_015 s3 elb_name account_id region) (\<lambda>bucket_name.
        if bucket_name \<noteq> ''fail''
        then enable_access_log_ELB_015 elbv2 elb_arn elb_name bucket_name region
        else returns ())
      else returns ()))))))))"

text \<open>Reading a document: the value stored under a key of an object.\<close>

fun json_get :: "string \<Rightarrow> json \<Rightarrow> json option" where
  "json_get k (JObject kvs) = map_of kvs k"
| "json_get k (JString s) = None"
| "json_get k (JArray xs) = None"

fun json_items :: "json \<Rightarrow> json list" where
  "json_items (JArray xs) = xs"
| "json_items (JString s) = []"
| "json_items (JObject kvs) = []"


section \<open>Observations on runs and documents\<close>

text \<open>The API calls of a run, in order, and those among them that change provider state.\<close>

fun calls :: "event list \<Rightarrow> api_call list" where
  "calls [] = []"
| "calls (Call c # t) = c # calls t"
| "calls (Print s # t) = calls t"

fun mutating :: "api_call \<Rightarrow> bool" where
  "mutating (DescribeSnapshots _) = False"
| "mutating (DescribeDBInstances _) = False"
| "mutating (DescribeLoadBalancerAttributes _) = False"
| "mutating GetCallerIdentity = False"
| "mutating (DescribeLoadBalancers _) = False"
| "mutating (DescribeLoadBalancerAttributesV2 _) = False"
| "mutating (CreateSnapshot _ _) = True"
| "mutating (ModifyDBInstance _ _) = True"
| "mutating (ModifyLoadBalancerAttributes _ _) = True"
| "mutating (ModifyLoadBalancerAttributesV2 _ _) = True"
| "mutating (CreateBucket _ _ _) = True"
| "mutating (PutObject _ _) = True"
| "mutating (PutBucketPolicy _ _) = True"

definition mutations :: "event list \<Rightarrow> api_call list" where
  "mutations t = filter mutating (calls t)"

text \<open>The statements of a policy document, and the IAM principal its first statement trusts.\<close>

definition policy_statements :: "json \<Rightarrow> json list" where
  "policy_statements policy =
     (case json_get ''Statement'' policy of None \<Rightarrow> [] | Some s \<Rightarrow> json_items s)"

definition trusted_principal :: "json \<Rightarrow> json option" where
  "trusted_principal policy =
     (case policy_statements policy of
        [] \<Rightarrow> None
      | s # _ \<Rightarrow> (case json_get ''Principal'' s of None \<Rightarrow> None | Some p \<Rightarrow> json_get ''AWS'' p))"

text \<open>The region codes that have a branch in the \<^verbatim>\<open>if\<close>/\<^verbatim>\<open>elif\<close> chain of \<^verbatim>\<open>BucketPolicy\<close>.\<close>

definition table_regions :: "string list" where
  "table_regions =
     [''ap-northeast-1'', ''ap-northeast-2'', ''ap-northeast-3'', ''ap-south-1'',
      ''ap-southeast-1'', ''ap-southeast-2'', ''ca-central-1'', ''eu-central-1'',
      ''eu-west-1'', ''eu-west-2'', ''eu-west-3'', ''sa-east-1'', ''us-east-1'',
      ''us-east-2'', ''us-west-1'', ''us-west-2'']"

text \<open>An attribute entry of the v2 API carrying both of its fields.\<close>

definition attribute :: "string \<times> string \<Rightarrow> elbv2_attribute" where
  "attribute kv = \<lparr>Key = Some (fst kv), Value = Some (snd kv)\<rparr>"


text \<open>
  Clients whose successful answers carry every field the runbooks read: the snapshot
  list with a start time on each snapshot and the id of a created snapshot; the instance
  list with an identifier on each instance; the access-log flag of a classic load
  balancer; the account of the caller; the load-balancer list, an ARN of at least five
  colon-separated fields where one is given, and attribute entries with key and value.
\<close>

definition ec2_answers_complete :: "ec2_client \<Rightarrow> bool" where
  "ec2_answers_complete ec2 \<longleftrightarrow>
     (\<forall>volume response. describe_snapshots ec2 volume = Inr response \<longrightarrow>
        (\<exists>snapshot. Snapshots response = Some snapshot
           \<and> (\<forall>s \<in> set snapshot. StartTime s \<noteq> None)))
     \<and> (\<forall>volume description created.
          create_snapshot ec2 volume description = Inr created \<longrightarrow> SnapshotId created \<noteq> None)"

definition rds_answers_complete :: "rds_client \<Rightarrow> bool" where
  "rds_answers_complete rds \<longleftrightarrow>
     (\<forall>resource response. describe_db_instances rds resource = Inr response \<longrightarrow>
        (\<exists>db_instance. DBInstances response = Some db_instance
           \<and> (\<forall>i \<in> set db_instance. DBInstanceIdentifier i \<noteq> None)))"

definition elb_answers_complete :: "elb_client \<Rightarrow> bool" where
  "elb_answers_complete elb \<longleftrightarrow>
     (\<forall>name response. describe_load_balancer_attributes elb name = Inr response \<longrightarrow>
        (\<exists>attribs logging enabled. LoadBalancerAttributes response = Some attribs
           \<and> AccessLog attribs = Some logging \<and> Enabled logging = Some enabled))"

definition sts_answers_complete :: "sts_client \<Rightarrow> bool" where
  "sts_answers_complete sts \<longleftrightarrow>
     (\<forall>identity. get_caller_identity sts = Inr identity \<longrightarrow> Account identity \<noteq> None)"

definition elbv2_answers_complete :: "elbv2_client \<Rightarrow> bool" where
  "elbv2_answers_complete elbv2 \<longleftrightarrow>
     (\<forall>names found. describe_load_balancers elbv2 names = Inr found \<longrightarrow>
        (\<exists>lbs. LoadBalancers found = Some lbs
           \<and> (\<forall>lb \<in> set lbs. \<forall>arn. LoadBalancerArn lb = Some arn \<longrightarrow>
                 4 < length (py_split CHR '':'' arn))))
     \<and> (\<forall>arn described. describe_load_balancer_attributes_v2 elbv2 arn = Inr described \<longrightarrow>
          (\<exists>kvs. Attributes described = Some (map attribute kvs)))"

text \<open>
  How a provider error shows in the output. A line surfaces an error when it is the
  error's message, or one of the two hints the load-balancer runbooks print in place of
  an \<^verbatim>\<open>Access Denied\<close> or \<^verbatim>\<open>Invalid principal\<close> message, or one of the two lines
  printed for a bucket that exists already. A run logs its errors when every call that
  the provider answers with an error is followed at once by a printed line that surfaces
  that error.
\<close>

definition surfaces :: "client_error \<Rightarrow> string \<Rightarrow> bool" where
  "surfaces e s \<longleftrightarrow>
     s = Message e
     \<or> (py_in ''Access Denied'' (Message e)
          \<and> starts_with s ''Access Denied: Check the AWS ELB Account Id for the '')
     \<or> (py_in ''Invalid principal'' (Message e)
          \<and> starts_with s ''Invalid principal: Check the AWS ELB Account Id for the '')
     \<or> (Code e = ''BucketAlreadyExists'' \<and> starts_with s ''Using existing S3 bucket: '')
     \<or> (Code e = ''BucketAlreadyOwnedByYou''
          \<and> starts_with s ''Using already owned and existing S3 bucket: '')"

fun errors_logged :: "(api_call \<Rightarrow> client_error option) \<Rightarrow> event list \<Rightarrow> bool" where
  "errors_logged answer [] = True"
| "errors_logged answer (Print s # t) = errors_logged answer t"
| "errors_logged answer (Call c # t) =
     ((case answer c of
         None \<Rightarrow> True
       | Some e \<Rightarrow> (case t of [] \<Rightarrow> False | Call _ # _ \<Rightarrow> False | Print s # _ \<Rightarrow> surfaces e s))
      \<and> errors_logged answer t)"

text \<open>The error, if any, with which the clients of a runbook answer a call.\<close>

definition error_of :: "client_error + 'r \<Rightarrow> client_error option" where
  "error_of answer = (case answer of Inl e \<Rightarrow> Some e | Inr _ \<Rightarrow> None)"

fun error_EC2_001 :: "ec2_client \<Rightarrow> api_call \<Rightarrow> client_error option" where
  "error_EC2_001 ec2 (DescribeSnapshots volume) = error_of (describe_snapshots ec2 volume)"
| "error_EC2_001 ec2 (CreateSnapshot volume description)
     = error_of (create_snapshot ec2 volume description)"
| "error_EC2_001 ec2 _ = None"

fun error_RDS_005 :: "rds_client \<Rightarrow> api_call \<Rightarrow> client_error option" where
  "error_RDS_005 rds (DescribeDBInstances resource) = error_of (describe_db_instances rds resource)"
| "error_RDS_005 rds (ModifyDBInstance instance public)
     = error_of (modify_db_instance rds instance public)"
| "error_RDS_005 rds _ = None"

fun error_ELB_013 ::
    "elb_client \<Rightarrow> s3_client \<Rightarrow> sts_client \<Rightarrow> api_call \<Rightarrow> client_error option" where
  "error_ELB_013 elb s3 sts (DescribeLoadBalancerAttributes name)
     = error_of (describe_load_balancer_attributes elb name)"
| "error_ELB_013 elb s3 sts (ModifyLoadBalancerAttributes name attributes)
     = error_of (modify_load_balancer_attributes elb name attributes)"
| "error_ELB_013 elb s3 sts GetCallerIdentity = error_of (get_caller_identity sts)"
| "error_ELB_013 elb s3 sts (CreateBucket acl bucket location)
     = error_of (create_bucket s3 acl bucket location)"
| "error_ELB_013 elb s3 sts (PutObject bucket key) = error_of (put_object s3 bucket key)"
| "error_ELB_013 elb s3 sts (PutBucketPolicy bucket policy)
     = error_of (put_bucket_policy s3 bucket policy)"
| "error_ELB_013 elb s3 sts _ = None"

fun error_ELB_015 :: "elbv2_client \<Rightarrow> s3_client \<Rightarrow> api_call \<Rightarrow> client_error option" where
  "error_ELB_015 elbv2 s3 (DescribeLoadBalancers names)
     = error_of (describe_load_balancers elbv2 names)"
| "error_ELB_015 elbv2 s3 (DescribeLoadBalancerAttributesV2 arn)
     = error_of (describe_load_balancer_attributes_v2 elbv2 arn)"
| "error_ELB_015 elbv2 s3 (ModifyLoadBalancerAttributesV2 arn attributes)
     = error_of (modify_load_balancer_attributes_v2 elbv2 arn attributes)"
| "error_ELB_015 elbv2 s3 (CreateBucket acl bucket location)
     = error_of (create_bucket s3 acl bucket location)"
| "error_ELB_015 elbv2 s3 (PutObject bucket key) = error_of (put_object s3 bucket key)"
| "error_ELB_015 elbv2 s3 (PutBucketPolicy bucket policy)
     = error_of (put_bucket_policy s3 bucket policy)"
| "error_ELB_015 elbv2 s3 _ = None"

section \<open>Basic facts\<close>

lemmas run_defs = seq_def returns_def raises_def print_def call_def subscript_def py_item_def

lemma calls_append: "calls (t @ u) = calls t @ calls u"
  by (induction t rule: calls.induct) simp_all

lemma scan_attribs_silent: "scan_attribs attribs logging = (r, t) \<Longrightarrow> t = []"
  by (induction attribs logging rule: scan_attribs.induct)
     (auto simp add: run_defs split: option.splits if_splits)

lemma Key_attribute: "Key (attribute (k, v)) = Some k"
  by (simp add: attribute_def)

lemma Value_attribute: "Value (attribute (k, v)) = Some v"
  by (simp add: attribute_def)

text \<open>
  On a list of complete entries the loop returns the value of the last entry whose key is
  \<^verbatim>\<open>access_logs.s3.enabled\<close>, or the initial value when there is none.
\<close>

lemma scan_attribs_map_of:
  "scan_attribs (map attribute kvs) logging =
     returns (case map_of (rev kvs) ''access_logs.s3.enabled'' of
                None \<Rightarrow> logging | Some v \<Rightarrow> v)"
proof (induction kvs arbitrary: logging)
  case Nil
  show ?case by simp
next
  case (Cons kv kvs)
  obtain k v where kv: "kv = (k, v)" by (cases kv)
  show ?case
    by (simp add: kv Cons.IH map_add_def Key_attribute Value_attribute split: option.splits)
qed

section \<open>The bucket policy\<close>

text \<open>
  C1, as the code has it. For each of the sixteen region codes of the table the policy's
  trusted principal is the root of the account listed for that region (for
  \<^verbatim>\<open>us-west-2\<close> account 797873946194, for \<^verbatim>\<open>eu-west-1\<close> account 156460612806), in both
  runbooks. For every other region code the builder does fall back: the trusted
  principal is the root of the default account 123456789012.
\<close>

theorem trusted_principal_by_region:
  "map (\<lambda>region. trusted_principal (BucketPolicy_ELB_013 bucket_name account_id region))
       table_regions
     = map (\<lambda>elb_account_id. Some (JString (''arn:aws:iam::'' @ elb_account_id @ '':root'')))
         [''582318560864'', ''600734575887'', ''383597477331'', ''718504428378'',
          ''114774131450'', ''783225319266'', ''985666609251'', ''054676820928'',
          ''156460612806'', ''652711504416'', ''009996457667'', ''507241528517'',
          ''127311923021'', ''033677994240'', ''027434742980'', ''797873946194'']
   \<and> map (\<lambda>region. trusted_principal (BucketPolicy_ELB_015 bucket_name account_id region))
       table_regions
     = map (\<lambda>elb_account_id. Some (JString (''arn:aws:iam::'' @ elb_account_id @ '':root'')))
         [''582318560864'', ''600734575887'', ''383597477331'', ''718504428378'',
          ''114774131450'', ''783225319266'', ''985666609251'', ''054676820928'',
          ''156460612806'', ''652711504416'', ''009996457667'', ''507241528517'',
          ''127311923021'', ''033677994240'', ''027434742980'', ''797873946194'']
   \<and> (region \<notin> set table_regions \<longrightarrow>
        trusted_principal (BucketPolicy_ELB_013 bucket_name account_id region)
          = Some (JString ''arn:aws:iam::123456789012:root'')
      \<and> trusted_principal (BucketPolicy_ELB_015 bucket_name account_id region)
          = Some (JString ''arn:aws:iam::123456789012:root''))"
  by (simp add: trusted_principal_def policy_statements_def table_regions_def
      BucketPolicy_ELB_013_def BucketPolicy_ELB_015_def)

theorem trusted_principal_by_region_witness:
  "''eu-north-1'' \<notin> set table_regions
   \<and> trusted_principal
       (BucketPolicy_ELB_013 ''elblogs-111122223333-eu-north-1'' ''111122223333'' ''eu-north-1'')
       = Some (JString ''arn:aws:iam::123456789012:root'')
   \<and> trusted_principal
       (BucketPolicy_ELB_015 ''elbv2logs-111122223333-eu-north-1'' ''111122223333'' ''eu-north-1'')
       = Some (JString ''arn:aws:iam::123456789012:root'')"
proof -
  have unmapped: "''eu-north-1'' \<notin> set table_regions"
    by (simp add: table_regions_def)
  from unmapped
    trusted_principal_by_region
      [of "''elblogs-111122223333-eu-north-1''" "''111122223333''" "''eu-north-1''"]
    trusted_principal_by_region
      [of "''elbv2logs-111122223333-eu-north-1''" "''111122223333''" "''eu-north-1''"]
  show ?thesis by blast
qed

text \<open>
  The claim as stated fails at the region code \<^verbatim>\<open>af-south-1\<close>, which the table does not
  list: the default account becomes the trusted principal.
\<close>

theorem default_principal_counterexample:
  "''af-south-1'' \<notin> set table_regions
   \<and> trusted_principal
       (BucketPolicy_ELB_013 ''elblogs-111122223333-af-south-1'' ''111122223333'' ''af-south-1'')
       = Some (JString ''arn:aws:iam::123456789012:root'')"
  by (simp add: trusted_principal_def policy_statements_def table_regions_def
      BucketPolicy_ELB_013_def)

text \<open>
  C10. For every bucket name, account id and region the policy document has exactly
  three statements, all with effect \<^verbatim>\<open>Allow\<close>: a put-object grant to an IAM account
  root, a put-object grant to the log-delivery service and a get-bucket-ACL grant to the
  log-delivery service. The two put-object resources are built from the bucket name and
  the account id, the third resource from the bucket name. The account of the IAM
  principal is the same for any two calls with the same region, whatever the other two
  arguments: it is derived from the region alone. Both runbooks build the same document.
  (Being a function of its three arguments, the builder is deterministic.)
\<close>

theorem bucket_policy_shape:
  "length (policy_statements (BucketPolicy_ELB_013 self account_id region)) = 3
   \<and> map (json_get ''Effect'') (policy_statements (BucketPolicy_ELB_013 self account_id region))
       = [Some (JString ''Allow''), Some (JString ''Allow''), Some (JString ''Allow'')]
   \<and> map (json_get ''Action'') (policy_statements (BucketPolicy_ELB_013 self account_id region))
       = [Some (JString ''s3:PutObject''), Some (JString ''s3:PutObject''),
          Some (JString ''s3:GetBucketAcl'')]
   \<and> map (json_get ''Resource'') (policy_statements (BucketPolicy_ELB_013 self account_id region))
       = [Some (JString (''arn:aws:s3:::'' @ self @ ''/*/AWSLogs/'' @ account_id @ ''/*'')),
          Some (JString (''arn:aws:s3:::'' @ self @ ''/*/AWSLogs/'' @ account_id @ ''/*'')),
          Some (JString (''arn:aws:s3:::'' @ self))]
   \<and> (\<exists>elb_account_id.
        map (json_get ''Principal'')
            (policy_statements (BucketPolicy_ELB_013 self account_id region))
          = [Some (JObject [(''AWS'', JString (''arn:aws:iam::'' @ elb_account_id @ '':root''))]),
             Some (JObject [(''Service'', JString ''delivery.logs.amazonaws.com'')]),
             Some (JObject [(''Service'', JString ''delivery.logs.amazonaws.com'')])])
   \<and> trusted_principal (BucketPolicy_ELB_013 self account_id region)
       = trusted_principal (BucketPolicy_ELB_013 self' account_id' region)
   \<and> BucketPolicy_ELB_015 self account_id region = BucketPolicy_ELB_013 self account_id region"
  by (simp add: trusted_principal_def policy_statements_def
      BucketPolicy_ELB_013_def BucketPolicy_ELB_015_def Let_def)



section \<open>AWS-EC2-001: when a snapshot is created\<close>

text \<open>
  What the code decides on: with no snapshot in the response a snapshot is created; with
  snapshots in the response, the \<^emph>\<open>first listed\<close> one is compared with today, and a
  snapshot is created exactly when it is 15 or more calendar days old.
\<close>

lemma remediate_EC2_001_no_snapshots:
  assumes "describe_snapshots ec2 (alert_resource_id alert) = Inr response"
    and "Snapshots response = Some []"
  shows "mutations (snd (remediate_EC2_001 ec2 today alert))
           = [CreateSnapshot (alert_resource_id alert) ''Autoremediate snapshot'']"
  using assms
  by (auto simp add: remediate_EC2_001_def new_ebs_snapshot_def run_defs mutations_def Let_def
      split: sum.splits option.splits)

lemma remediate_EC2_001_first_listed:
  assumes "describe_snapshots ec2 (alert_resource_id alert) = Inr response"
    and "Snapshots response = Some (s # rest)"
    and "StartTime s = Some start_time"
  shows "mutations (snd (remediate_EC2_001 ec2 today alert))
           = (if today - date start_time \<ge> 15
              then [CreateSnapshot (alert_resource_id alert) ''Autoremediate snapshot'']
              else [])"
  using assms
  by (auto simp add: remediate_EC2_001_def new_ebs_snapshot_def run_defs mutations_def Let_def
      snapshot_age_def split: sum.splits option.splits)

text \<open>
  C2 asks for the most recently created snapshot to decide. The response below lists a
  snapshot taken 30 days before today first and one taken yesterday second, so the most
  recent snapshot is one day old and no snapshot is due; the code reads the first entry
  and creates one.
\<close>

theorem remediate_EC2_001_ignores_latest_snapshot:
  "remediate_EC2_001
      \<lparr>describe_snapshots = (\<lambda>volume. Inr \<lparr>Snapshots = Some
           [\<lparr>StartTime = Some \<lparr>day_ordinal = 738000, second_of_day = 0\<rparr>\<rparr>,
            \<lparr>StartTime = Some \<lparr>day_ordinal = 738029, second_of_day = 0\<rparr>\<rparr>]\<rparr>),
       create_snapshot = (\<lambda>volume description. Inr \<lparr>SnapshotId = Some ''snap-0001''\<rparr>)\<rparr>
      738030
      \<lparr>alert_resource_id = ''vol-0abc'', alert_region = ''us-east-1''\<rparr>
   = (Inr (),
      [Call (DescribeSnapshots ''vol-0abc''),
       Call (CreateSnapshot ''vol-0abc'' ''Autoremediate snapshot''),
       Print ''New snapshot snap-0001 created for EBS Volume vol-0abc.''])
   \<and> 738030 - max (date \<lparr>day_ordinal = 738000, second_of_day = 0\<rparr>)
                   (date \<lparr>day_ordinal = 738029, second_of_day = 0\<rparr>) < snapshot_age"
  by (simp add: remediate_EC2_001_def new_ebs_snapshot_def run_defs date_def snapshot_age_def
      Let_def)

section \<open>AWS-RDS-005: when the instance is modified\<close>

text \<open>
  C3. When the describe call succeeds, the mutating calls of the run are determined by
  the first instance record. If its \<^verbatim>\<open>PubliclyAccessible\<close> flag is true, the run makes
  exactly one mutating call, \<^verbatim>\<open>modify_db_instance\<close> of that instance (named by the
  record's \<^verbatim>\<open>DBInstanceIdentifier\<close>) with \<^verbatim>\<open>PubliclyAccessible = False\<close>. If the flag
  is false or missing, or no record is returned, the run makes no mutating call.
\<close>

theorem remediate_RDS_005_modify_calls:
  assumes "describe_db_instances rds (alert_resource_id alert) = Inr response"
    and "DBInstances response = Some db_instance"
  shows "(\<forall>i others instance_id.
            db_instance = i # others \<and> PubliclyAccessible i = Some True
            \<and> DBInstanceIdentifier i = Some instance_id
          \<longrightarrow> mutations (snd (remediate_RDS_005 rds alert))
                = [ModifyDBInstance instance_id False])
       \<and> (db_instance = []
            \<or> (\<exists>i others. db_instance = i # others \<and> PubliclyAccessible i \<noteq> Some True)
          \<longrightarrow> mutations (snd (remediate_RDS_005 rds alert)) = [])"
  using assms
  by (auto simp add: remediate_RDS_005_def public_flag_def run_defs mutations_def Let_def
      split: sum.splits option.splits)

theorem remediate_RDS_005_modify_calls_witness:
  "mutations (snd (remediate_RDS_005
      \<lparr>describe_db_instances = (\<lambda>resource. Inr \<lparr>DBInstances = Some
           [\<lparr>PubliclyAccessible = Some True, DBInstanceIdentifier = Some ''orders-db''\<rparr>]\<rparr>),
       modify_db_instance = (\<lambda>instance public. Inr ())\<rparr>
      \<lparr>alert_resource_id = ''db-ABCDEFGH'', alert_region = ''eu-west-1''\<rparr>))
   = [ModifyDBInstance ''orders-db'' False]
   \<and> mutations (snd (remediate_RDS_005
      \<lparr>describe_db_instances = (\<lambda>resource. Inr \<lparr>DBInstances = Some
           [\<lparr>PubliclyAccessible = None, DBInstanceIdentifier = Some ''orders-db''\<rparr>]\<rparr>),
       modify_db_instance = (\<lambda>instance public. Inr ())\<rparr>
      \<lparr>alert_resource_id = ''db-ABCDEFGH'', alert_region = ''eu-west-1''\<rparr>))
   = []"
  using
    remediate_RDS_005_modify_calls
      [of "\<lparr>describe_db_instances = (\<lambda>resource. Inr \<lparr>DBInstances = Some
             [\<lparr>PubliclyAccessible = Some True, DBInstanceIdentifier = Some ''orders-db''\<rparr>]\<rparr>),
           modify_db_instance = (\<lambda>instance public. Inr ())\<rparr>"
          "\<lparr>alert_resource_id = ''db-ABCDEFGH'', alert_region = ''eu-west-1''\<rparr>"
          "\<lparr>DBInstances = Some
             [\<lparr>PubliclyAccessible = Some True, DBInstanceIdentifier = Some ''orders-db''\<rparr>]\<rparr>"
          "[\<lparr>PubliclyAccessible = Some True, DBInstanceIdentifier = Some ''orders-db''\<rparr>]"]
    remediate_RDS_005_modify_calls
      [of "\<lparr>describe_db_instances = (\<lambda>resource. Inr \<lparr>DBInstances = Some
             [\<lparr>PubliclyAccessible = None, DBInstanceIdentifier = Some ''orders-db''\<rparr>]\<rparr>),
           modify_db_instance = (\<lambda>instance public. Inr ())\<rparr>"
          "\<lparr>alert_resource_id = ''db-ABCDEFGH'', alert_region = ''eu-west-1''\<rparr>"
          "\<lparr>DBInstances = Some
             [\<lparr>PubliclyAccessible = None, DBInstanceIdentifier = Some ''orders-db''\<rparr>]\<rparr>"
          "[\<lparr>PubliclyAccessible = None, DBInstanceIdentifier = Some ''orders-db''\<rparr>]"]
  by simp

section \<open>Load balancers that already log\<close>

text \<open>
  C7. When the describe response of a classic load balancer has \<^verbatim>\<open>AccessLog.Enabled\<close>
  true, the run consists of the describe call alone. When the attribute list of a v2 load
  balancer gives \<^verbatim>\<open>access_logs.s3.enabled\<close> the value \<^verbatim>\<open>true\<close>, the run consists of the
  two read calls (lookup by name, describe attributes) alone. In both cases no bucket is
  created, no attribute is modified, nothing is printed and the run returns normally.
\<close>

theorem logging_enabled_is_noop:
  "(py_split CHR ''/'' (alert_resource_id alert) = p0 # elb_name # rest
    \<and> describe_load_balancer_attributes elb elb_name = Inr response
    \<and> LoadBalancerAttributes response = Some attribs
    \<and> AccessLog attribs = Some logging
    \<and> Enabled logging = Some True
    \<longrightarrow> remediate_ELB_013 elb s3 sts alert
          = (Inr (), [Call (DescribeLoadBalancerAttributes elb_name)]))
   \<and> (py_split CHR ''/'' (alert_resource_id alert2) = q0 # q1 # elb_name2 # rest2
    \<and> describe_load_balancers elbv2 [elb_name2] = Inr found
    \<and> LoadBalancers found = Some (lb # lbs)
    \<and> LoadBalancerArn lb = Some elb_arn
    \<and> 4 < length (py_split CHR '':'' elb_arn)
    \<and> describe_load_balancer_attributes_v2 elbv2 elb_arn = Inr described
    \<and> Attributes described = Some (map attribute kvs)
    \<and> map_of (rev kvs) ''access_logs.s3.enabled'' = Some ''true''
    \<longrightarrow> remediate_ELB_015 elbv2 s3 alert2
          = (Inr (), [Call (DescribeLoadBalancers [elb_name2]),
                      Call (DescribeLoadBalancerAttributesV2 elb_arn)]))"
  by (simp add: remediate_ELB_013_def remediate_ELB_015_def scan_attribs_map_of run_defs Let_def)

theorem logging_enabled_is_noop_witness:
  "remediate_ELB_013
      \<lparr>describe_load_balancer_attributes = (\<lambda>name. Inr \<lparr>LoadBalancerAttributes = Some
           \<lparr>AccessLog = Some \<lparr>Enabled = Some True, S3BucketName = Some ''logs'',
              EmitInterval = Some 60, S3BucketPrefix = Some ''web''\<rparr>\<rparr>\<rparr>),
       modify_load_balancer_attributes = (\<lambda>name attributes. Inr ())\<rparr>
      \<lparr>create_bucket = (\<lambda>acl bucket location. Inr ()),
       put_object = (\<lambda>bucket key. Inr ()),
       put_bucket_policy = (\<lambda>bucket policy. Inr ())\<rparr>
      \<lparr>get_caller_identity = Inr \<lparr>Account = Some ''111122223333''\<rparr>\<rparr>
      \<lparr>alert_resource_id = ''loadbalancer/web'', alert_region = ''us-west-2''\<rparr>
     = (Inr (), [Call (DescribeLoadBalancerAttributes ''web'')])
   \<and> remediate_ELB_015
      \<lparr>describe_load_balancers = (\<lambda>names. Inr \<lparr>LoadBalancers = Some
           [\<lparr>LoadBalancerArn = Some ''arn:aws:elb:us-west-2:111122223333:lb/app/myelb/abc123''\<rparr>]\<rparr>),
       describe_load_balancer_attributes_v2 = (\<lambda>arn. Inr \<lparr>Attributes = Some
           (map attribute [(''access_logs.s3.enabled'', ''true''),
                           (''deletion_protection.enabled'', ''false'')])\<rparr>),
       modify_load_balancer_attributes_v2 = (\<lambda>arn attributes. Inr ())\<rparr>
      \<lparr>create_bucket = (\<lambda>acl bucket location. Inr ()),
       put_object = (\<lambda>bucket key. Inr ()),
       put_bucket_policy = (\<lambda>bucket policy. Inr ())\<rparr>
      \<lparr>alert_resource_id = ''arn:aws:elb:us-west-2:111122223333:lb/app/myelb/abc123'',
       alert_region = ''us-west-2''\<rparr>
     = (Inr (), [Call (DescribeLoadBalancers [''myelb'']),
                 Call (DescribeLoadBalancerAttributesV2
                         ''arn:aws:elb:us-west-2:111122223333:lb/app/myelb/abc123'')])"
proof -
  have classic:
    "py_split CHR ''/'' (alert_resource_id
         \<lparr>alert_resource_id = ''loadbalancer/web'', alert_region = ''us-west-2''\<rparr>)
       = ''loadbalancer'' # ''web'' # []
     \<and> describe_load_balancer_attributes
         \<lparr>describe_load_balancer_attributes = (\<lambda>name. Inr \<lparr>LoadBalancerAttributes = Some
              \<lparr>AccessLog = Some \<lparr>Enabled = Some True, S3BucketName = Some ''logs'',
                 EmitInterval = Some 60, S3BucketPrefix = Some ''web''\<rparr>\<rparr>\<rparr>),
          modify_load_balancer_attributes = (\<lambda>name attributes. Inr ())\<rparr> ''web''
       = Inr \<lparr>LoadBalancerAttributes = Some
              \<lparr>AccessLog = Some \<lparr>Enabled = Some True, S3BucketName = Some ''logs'',
                 EmitInterval = Some 60, S3BucketPrefix = Some ''web''\<rparr>\<rparr>\<rparr>
     \<and> LoadBalancerAttributes \<lparr>LoadBalancerAttributes = Some
              \<lparr>AccessLog = Some \<lparr>Enabled = Some True, S3BucketName = Some ''logs'',
                 EmitInterval = Some 60, S3BucketPrefix = Some ''web''\<rparr>\<rparr>\<rparr>
       = Some \<lparr>AccessLog = Some \<lparr>Enabled = Some True, S3BucketName = Some ''logs'',
                 EmitInterval = Some 60, S3BucketPrefix = Some ''web''\<rparr>\<rparr>
     \<and> AccessLog \<lparr>AccessLog = Some \<lparr>Enabled = Some True, S3BucketName = Some ''logs'',
                 EmitInterval = Some 60, S3BucketPrefix = Some ''web''\<rparr>\<rparr>
       = Some \<lparr>Enabled = Some True, S3BucketName = Some ''logs'',
                 EmitInterval = Some 60, S3BucketPrefix = Some ''web''\<rparr>
     \<and> Enabled \<lparr>Enabled = Some True, S3BucketName = Some ''logs'',
                 EmitInterval = Some 60, S3BucketPrefix = Some ''web''\<rparr> = Some True"
    by simp
  have v2:
    "py_split CHR ''/'' (alert_resource_id
         \<lparr>alert_resource_id = ''arn:aws:elb:us-west-2:111122223333:lb/app/myelb/abc123'',
          alert_region = ''us-west-2''\<rparr>)
       = ''arn:aws:elb:us-west-2:111122223333:lb'' # ''app'' # ''myelb'' # [''abc123'']
     \<and> describe_load_balancers
         \<lparr>describe_load_balancers = (\<lambda>names. Inr \<lparr>LoadBalancers = Some
              [\<lparr>LoadBalancerArn = Some ''arn:aws:elb:us-west-2:111122223333:lb/app/myelb/abc123''\<rparr>]\<rparr>),
          describe_load_balancer_attributes_v2 = (\<lambda>arn. Inr \<lparr>Attributes = Some
              (map attribute [(''access_logs.s3.enabled'', ''true''),
                              (''deletion_protection.enabled'', ''false'')])\<rparr>),
          modify_load_balancer_attributes_v2 = (\<lambda>arn attributes. Inr ())\<rparr> [''myelb'']
       = Inr \<lparr>LoadBalancers = Some
              [\<lparr>LoadBalancerArn = Some ''arn:aws:elb:us-west-2:111122223333:lb/app/myelb/abc123''\<rparr>]\<rparr>
     \<and> LoadBalancers \<lparr>LoadBalancers = Some
              [\<lparr>LoadBalancerArn = Some ''arn:aws:elb:us-west-2:111122223333:lb/app/myelb/abc123''\<rparr>]\<rparr>
       = Some (\<lparr>LoadBalancerArn = Some ''arn:aws:elb:us-west-2:111122223333:lb/app/myelb/abc123''\<rparr> # [])
     \<and> LoadBalancerArn
         \<lparr>LoadBalancerArn = Some ''arn:aws:elb:us-west-2:111122223333:lb/app/myelb/abc123''\<rparr>
       = Some ''arn:aws:elb:us-west-2:111122223333:lb/app/myelb/abc123''
     \<and> 4 < length (py_split CHR '':'' ''arn:aws:elb:us-west-2:111122223333:lb/app/myelb/abc123'')
     \<and> describe_load_balancer_attributes_v2
         \<lparr>describe_load_balancers = (\<lambda>names. Inr \<lparr>LoadBalancers = Some
              [\<lparr>LoadBalancerArn = Some ''arn:aws:elb:us-west-2:111122223333:lb/app/myelb/abc123''\<rparr>]\<rparr>),
          describe_load_balancer_attributes_v2 = (\<lambda>arn. Inr \<lparr>Attributes = Some
              (map attribute [(''access_logs.s3.enabled'', ''true''),
                              (''deletion_protection.enabled'', ''false'')])\<rparr>),
          modify_load_balancer_attributes_v2 = (\<lambda>arn attributes. Inr ())\<rparr>
         ''arn:aws:elb:us-west-2:111122223333:lb/app/myelb/abc123''
       = Inr \<lparr>Attributes = Some
              (map attribute [(''access_logs.s3.enabled'', ''true''),
                              (''deletion_protection.enabled'', ''false'')])\<rparr>
     \<and> Attributes \<lparr>Attributes = Some
              (map attribute [(''access_logs.s3.enabled'', ''true''),
                              (''deletion_protection.enabled'', ''false'')])\<rparr>
       = Some (map attribute [(''access_logs.s3.enabled'', ''true''),
                              (''deletion_protection.enabled'', ''false'')])
     \<and> map_of (rev [(''access_logs.s3.enabled'', ''true''),
                     (''deletion_protection.enabled'', ''false'')]) ''access_logs.s3.enabled''
       = Some ''true''"
    by simp
  from logging_enabled_is_noop [THEN conjunct1, THEN mp, OF classic]
    logging_enabled_is_noop [THEN conjunct2, THEN mp, OF v2]
  show ?thesis by (rule conjI)
qed



section \<open>Bucket provisioning\<close>

lemma seq_Inr: "seq (Inr v, t) f = (fst (f v), t @ snd (f v))"
  by (simp add: seq_def split: prod.splits)

lemma seq_Inl: "seq (Inl e, t) f = (Inl e, t)"
  by (simp add: seq_def)

lemmas run_simps = seq_Inr seq_Inl returns_def raises_def print_def call_def subscript_def
  py_item_def

lemma new_s3_bucket_ELB_013_created:
  assumes "create_bucket s3 ''private'' (''elblogs-'' @ account_id @ ''-'' @ region)
             (if region = ''us-east-1'' then None else Some region) = Inr ()"
    and "put_object s3 (''elblogs-'' @ account_id @ ''-'' @ region) (elb_name @ ''/'') = Inr ()"
    and "put_bucket_policy s3 (''elblogs-'' @ account_id @ ''-'' @ region)
           (BucketPolicy_ELB_013 (''elblogs-'' @ account_id @ ''-'' @ region) account_id region) = Inr ()"
  shows "new_s3_bucket_ELB_013 s3 elb_name account_id region
           = (Inr (''elblogs-'' @ account_id @ ''-'' @ region),
              [Call (CreateBucket ''private'' (''elblogs-'' @ account_id @ ''-'' @ region)
                       (if region = ''us-east-1'' then None else Some region)),
               Print (''New S3 bucket created: '' @ (''elblogs-'' @ account_id @ ''-'' @ region)),
               Call (PutObject (''elblogs-'' @ account_id @ ''-'' @ region) (elb_name @ ''/'')),
               Call (PutBucketPolicy (''elblogs-'' @ account_id @ ''-'' @ region)
                       (BucketPolicy_ELB_013 (''elblogs-'' @ account_id @ ''-'' @ region) account_id region))])"
  using assms by (simp add: new_s3_bucket_ELB_013_def run_simps Let_def)





lemma new_s3_bucket_ELB_015_created:
  assumes "create_bucket s3 ''private'' (''elbv2logs-'' @ account_id @ ''-'' @ region)
             (if region = ''us-east-1'' then None else Some region) = Inr ()"
    and "put_object s3 (''elbv2logs-'' @ account_id @ ''-'' @ region) (elb_name @ ''/'') = Inr ()"
    and "put_bucket_policy s3 (''elbv2logs-'' @ account_id @ ''-'' @ region)
           (BucketPolicy_ELB_015 (''elbv2logs-'' @ account_id @ ''-'' @ region) account_id region) = Inr ()"
  shows "new_s3_bucket_ELB_015 s3 elb_name account_id region
           = (Inr (''elbv2logs-'' @ account_id @ ''-'' @ region),
              [Call (CreateBucket ''private'' (''elbv2logs-'' @ account_id @ ''-'' @ region)
                       (if region = ''us-east-1'' then None else Some region)),
               Print (''New S3 bucket created: '' @ (''elbv2logs-'' @ account_id @ ''-'' @ region)),
               Call (PutObject (''elbv2logs-'' @ account_id @ ''-'' @ region) (elb_name @ ''/'')),
               Call (PutBucketPolicy (''elbv2logs-'' @ account_id @ ''-'' @ region)
                       (BucketPolicy_ELB_015 (''elbv2logs-'' @ account_id @ ''-'' @ region) account_id region))])"
  using assms by (simp add: new_s3_bucket_ELB_015_def run_simps Let_def)









lemma seq_scan_attribs:
  "seq (scan_attribs attribs logging) f =
     (case fst (scan_attribs attribs logging) of Inl e \<Rightarrow> (Inl e, []) | Inr v \<Rightarrow> f v)"
proof -
  obtain r t where rt: "scan_attribs attribs logging = (r, t)"
    by (cases "scan_attribs attribs logging")
  then have "t = []" by (rule scan_attribs_silent)
  with rt show ?thesis by (simp add: seq_def split: sum.splits)
qed







section \<open>Failing read calls\<close>

text \<open>
  C8. When a read call fails, the run ends there: it consists of the calls issued so
  far, all of them reads, followed by one printed line, the message of the provider's
  error unchanged, and it returns normally. This holds for the describe call of the
  snapshot and database runbooks, for the describe call and the identity call of the
  classic load-balancer runbook, and for the lookup and the describe call of the v2
  load-balancer runbook.
\<close>

theorem read_failure_aborts:
  "(describe_snapshots ec2 (alert_resource_id alert) = Inl e
      \<longrightarrow> remediate_EC2_001 ec2 today alert
            = (Inr (), [Call (DescribeSnapshots (alert_resource_id alert)), Print (Message e)]))
   \<and> (describe_db_instances rds (alert_resource_id alert) = Inl e
      \<longrightarrow> remediate_RDS_005 rds alert
            = (Inr (), [Call (DescribeDBInstances (alert_resource_id alert)), Print (Message e)]))
   \<and> (py_split CHR ''/'' (alert_resource_id alert) = p0 # elb_name # rest
      \<and> describe_load_balancer_attributes elb elb_name = Inl e
      \<longrightarrow> remediate_ELB_013 elb s3 sts alert
            = (Inr (), [Call (DescribeLoadBalancerAttributes elb_name), Print (Message e)]))
   \<and> (py_split CHR ''/'' (alert_resource_id alert) = p0 # elb_name # rest
      \<and> describe_load_balancer_attributes elb elb_name = Inr response
      \<and> LoadBalancerAttributes response = Some attribs
      \<and> AccessLog attribs = Some logging
      \<and> Enabled logging = Some False
      \<and> get_caller_identity sts = Inl e
      \<longrightarrow> remediate_ELB_013 elb s3 sts alert
            = (Inr (), [Call (DescribeLoadBalancerAttributes elb_name), Call GetCallerIdentity, Print (Message e)]))
   \<and> (py_split CHR ''/'' (alert_resource_id alert) = q0 # q1 # elb_name # rest
      \<and> describe_load_balancers elbv2 [elb_name] = Inl e
      \<longrightarrow> remediate_ELB_015 elbv2 s3 alert
            = (Inr (), [Call (DescribeLoadBalancers [elb_name]), Print (Message e)]))
   \<and> (py_split CHR ''/'' (alert_resource_id alert) = q0 # q1 # elb_name # rest
      \<and> describe_load_balancers elbv2 [elb_name] = Inr found
      \<and> LoadBalancers found = Some (lb # lbs)
      \<and> LoadBalancerArn lb = Some elb_arn
      \<and> 4 < length (py_split CHR '':'' elb_arn)
      \<and> describe_load_balancer_attributes_v2 elbv2 elb_arn = Inl e
      \<longrightarrow> remediate_ELB_015 elbv2 s3 alert
            = (Inr (), [Call (DescribeLoadBalancers [elb_name]), Call (DescribeLoadBalancerAttributesV2 elb_arn), Print (Message e)]))"
  by (simp add: remediate_EC2_001_def remediate_RDS_005_def remediate_ELB_013_def
      remediate_ELB_015_def get_account_id_def run_simps Let_def)

theorem read_failure_aborts_witness:
  "remediate_EC2_001 \<lparr>describe_snapshots = (\<lambda>volume. Inl \<lparr>Code =
     ''Throttling'', Message = ''Rate exceeded''\<rparr>), create_snapshot = (\<lambda>volume
     description. Inr \<lparr>SnapshotId = Some ''snap-0001''\<rparr>)\<rparr> 738030
     \<lparr>alert_resource_id = ''vol-0abc'', alert_region = ''us-east-1''\<rparr> = (Inr (),
     [Call (DescribeSnapshots ''vol-0abc''), Print ''Rate exceeded''])
   \<and> remediate_RDS_005 \<lparr>describe_db_instances = (\<lambda>resource. Inl \<lparr>Code =
     ''Throttling'', Message = ''Rate exceeded''\<rparr>), modify_db_instance =
     (\<lambda>instance public. Inr ())\<rparr> \<lparr>alert_resource_id = ''db-ABCDEFGH'',
     alert_region = ''eu-west-1''\<rparr> = (Inr (), [Call (DescribeDBInstances
     ''db-ABCDEFGH''), Print ''Rate exceeded''])
   \<and> remediate_ELB_013 \<lparr>describe_load_balancer_attributes = (\<lambda>name. Inl
     \<lparr>Code = ''Throttling'', Message = ''Rate exceeded''\<rparr>),
     modify_load_balancer_attributes = (\<lambda>name attributes. Inr ())\<rparr>
     \<lparr>create_bucket = (\<lambda>acl bucket location. Inr ()), put_object =
     (\<lambda>bucket key. Inr ()), put_bucket_policy = (\<lambda>bucket policy. Inr ())\<rparr>
     \<lparr>get_caller_identity = Inr \<lparr>Account = Some ''111122223333''\<rparr>\<rparr>
     \<lparr>alert_resource_id = ''loadbalancer/web'', alert_region = ''us-west-2''\<rparr> =
     (Inr (), [Call (DescribeLoadBalancerAttributes ''web''), Print ''Rate exceeded''])
   \<and> remediate_ELB_013 \<lparr>describe_load_balancer_attributes = (\<lambda>name. Inr
     \<lparr>LoadBalancerAttributes = Some \<lparr>AccessLog = Some \<lparr>Enabled = Some
     False, S3BucketName = None, EmitInterval = None, S3BucketPrefix =
     None\<rparr>\<rparr>\<rparr>), modify_load_balancer_attributes = (\<lambda>name attributes.
     Inr ())\<rparr> \<lparr>create_bucket = (\<lambda>acl bucket location. Inr ()), put_object
     = (\<lambda>bucket key. Inr ()), put_bucket_policy = (\<lambda>bucket policy. Inr
     ())\<rparr> \<lparr>get_caller_identity = Inl \<lparr>Code = ''Throttling'', Message =
     ''Rate exceeded''\<rparr>\<rparr> \<lparr>alert_resource_id = ''loadbalancer/web'',
     alert_region = ''us-west-2''\<rparr> = (Inr (), [Call (DescribeLoadBalancerAttributes
     ''web''), Call GetCallerIdentity, Print ''Rate exceeded''])
   \<and> remediate_ELB_015 \<lparr>describe_load_balancers = (\<lambda>names. Inl \<lparr>Code =
     ''Throttling'', Message = ''Rate exceeded''\<rparr>), describe_load_balancer_attributes_v2
     = (\<lambda>arn. Inr \<lparr>Attributes = Some (map attribute [(''access_logs.s3.enabled'',
     ''false''), (''idle_timeout.timeout_seconds'', ''60'')])\<rparr>),
     modify_load_balancer_attributes_v2 = (\<lambda>arn attributes. Inr ())\<rparr>
     \<lparr>create_bucket = (\<lambda>acl bucket location. Inr ()), put_object =
     (\<lambda>bucket key. Inr ()), put_bucket_policy = (\<lambda>bucket policy. Inr ())\<rparr>
     \<lparr>alert_resource_id = ''arn:aws:elb:us-west-2:111122223333:lb/app/myelb/abc123'',
     alert_region = ''us-west-2''\<rparr> = (Inr (), [Call (DescribeLoadBalancers [''myelb'']),
     Print ''Rate exceeded''])
   \<and> remediate_ELB_015 \<lparr>describe_load_balancers = (\<lambda>names. Inr
     \<lparr>LoadBalancers = Some [\<lparr>LoadBalancerArn = Some
     ''arn:aws:elb:us-west-2:111122223333:lb/app/myelb/abc123''\<rparr>]\<rparr>),
     describe_load_balancer_attributes_v2 = (\<lambda>arn. Inl \<lparr>Code = ''Throttling'',
     Message = ''Rate exceeded''\<rparr>), modify_load_balancer_attributes_v2 = (\<lambda>arn
     attributes. Inr ())\<rparr> \<lparr>create_bucket = (\<lambda>acl bucket location. Inr ()),
     put_object = (\<lambda>bucket key. Inr ()), put_bucket_policy = (\<lambda>bucket policy.
     Inr ())\<rparr> \<lparr>alert_resource_id =
     ''arn:aws:elb:us-west-2:111122223333:lb/app/myelb/abc123'', alert_region =
     ''us-west-2''\<rparr> = (Inr (), [Call (DescribeLoadBalancers [''myelb'']), Call
     (DescribeLoadBalancerAttributesV2
     ''arn:aws:elb:us-west-2:111122223333:lb/app/myelb/abc123''), Print ''Rate exceeded''])"
proof -
  have h1: "describe_snapshots \<lparr>describe_snapshots = (\<lambda>volume. Inl \<lparr>Code =
      ''Throttling'', Message = ''Rate exceeded''\<rparr>), create_snapshot = (\<lambda>volume
      description. Inr \<lparr>SnapshotId = Some ''snap-0001''\<rparr>)\<rparr>
      (alert_resource_id \<lparr>alert_resource_id = ''vol-0abc'', alert_region =
      ''us-east-1''\<rparr>) = Inl \<lparr>Code = ''Throttling'', Message =
      ''Rate exceeded''\<rparr>"
    by simp
  have c1: "remediate_EC2_001 \<lparr>describe_snapshots = (\<lambda>volume. Inl \<lparr>Code =
      ''Throttling'', Message = ''Rate exceeded''\<rparr>), create_snapshot = (\<lambda>volume
      description. Inr \<lparr>SnapshotId = Some ''snap-0001''\<rparr>)\<rparr> 738030
      \<lparr>alert_resource_id = ''vol-0abc'', alert_region = ''us-east-1''\<rparr> = (Inr (),
      [Call (DescribeSnapshots ''vol-0abc''), Print ''Rate exceeded''])"
    using read_failure_aborts [THEN conjunct1, THEN mp, OF h1]
    by simp
  have h2: "describe_db_instances \<lparr>describe_db_instances = (\<lambda>resource. Inl \<lparr>Code
      = ''Throttling'', Message = ''Rate exceeded''\<rparr>), modify_db_instance =
      (\<lambda>instance public. Inr ())\<rparr> (alert_resource_id \<lparr>alert_resource_id =
      ''db-ABCDEFGH'', alert_region = ''eu-west-1''\<rparr>) = Inl \<lparr>Code =
      ''Throttling'', Message = ''Rate exceeded''\<rparr>"
    by simp
  have c2: "remediate_RDS_005 \<lparr>describe_db_instances = (\<lambda>resource. Inl \<lparr>Code =
      ''Throttling'', Message = ''Rate exceeded''\<rparr>), modify_db_instance =
      (\<lambda>instance public. Inr ())\<rparr> \<lparr>alert_resource_id = ''db-ABCDEFGH'',
      alert_region = ''eu-west-1''\<rparr> = (Inr (), [Call (DescribeDBInstances
      ''db-ABCDEFGH''), Print ''Rate exceeded''])"
    using read_failure_aborts [THEN conjunct2, THEN conjunct1, THEN mp, OF h2]
    by simp
  have h3: "py_split CHR ''/'' (alert_resource_id \<lparr>alert_resource_id = ''loadbalancer/web'',
      alert_region = ''us-west-2''\<rparr>) = ''loadbalancer'' # ''web'' # [] \<and>
      describe_load_balancer_attributes \<lparr>describe_load_balancer_attributes =
      (\<lambda>name. Inl \<lparr>Code = ''Throttling'', Message = ''Rate exceeded''\<rparr>),
      modify_load_balancer_attributes = (\<lambda>name attributes. Inr ())\<rparr> ''web'' = Inl
      \<lparr>Code = ''Throttling'', Message = ''Rate exceeded''\<rparr>"
    by simp
  have c3: "remediate_ELB_013 \<lparr>describe_load_balancer_attributes = (\<lambda>name. Inl
      \<lparr>Code = ''Throttling'', Message = ''Rate exceeded''\<rparr>),
      modify_load_balancer_attributes = (\<lambda>name attributes. Inr ())\<rparr>
      \<lparr>create_bucket = (\<lambda>acl bucket location. Inr ()), put_object =
      (\<lambda>bucket key. Inr ()), put_bucket_policy = (\<lambda>bucket policy. Inr
      ())\<rparr> \<lparr>get_caller_identity = Inr \<lparr>Account = Some
      ''111122223333''\<rparr>\<rparr> \<lparr>alert_resource_id = ''loadbalancer/web'',
      alert_region = ''us-west-2''\<rparr> = (Inr (), [Call (DescribeLoadBalancerAttributes
      ''web''), Print ''Rate exceeded''])"
    using read_failure_aborts [THEN conjunct2, THEN conjunct2, THEN conjunct1, THEN mp, OF h3]
    by simp
  have h4: "py_split CHR ''/'' (alert_resource_id \<lparr>alert_resource_id = ''loadbalancer/web'',
      alert_region = ''us-west-2''\<rparr>) = ''loadbalancer'' # ''web'' # [] \<and>
      describe_load_balancer_attributes \<lparr>describe_load_balancer_attributes =
      (\<lambda>name. Inr \<lparr>LoadBalancerAttributes = Some \<lparr>AccessLog = Some
      \<lparr>Enabled = Some False, S3BucketName = None, EmitInterval = None, S3BucketPrefix =
      None\<rparr>\<rparr>\<rparr>), modify_load_balancer_attributes = (\<lambda>name
      attributes. Inr ())\<rparr> ''web'' = Inr \<lparr>LoadBalancerAttributes = Some
      \<lparr>AccessLog = Some \<lparr>Enabled = Some False, S3BucketName = None, EmitInterval =
      None, S3BucketPrefix = None\<rparr>\<rparr>\<rparr> \<and> LoadBalancerAttributes
      \<lparr>LoadBalancerAttributes = Some \<lparr>AccessLog = Some \<lparr>Enabled = Some
      False, S3BucketName = None, EmitInterval = None, S3BucketPrefix =
      None\<rparr>\<rparr>\<rparr> = Some \<lparr>AccessLog = Some \<lparr>Enabled = Some False,
      S3BucketName = None, EmitInterval = None, S3BucketPrefix = None\<rparr>\<rparr> \<and>
      AccessLog \<lparr>AccessLog = Some \<lparr>Enabled = Some False, S3BucketName = None,
      EmitInterval = None, S3BucketPrefix = None\<rparr>\<rparr> = Some \<lparr>Enabled = Some
      False, S3BucketName = None, EmitInterval = None, S3BucketPrefix = None\<rparr> \<and>
      Enabled \<lparr>Enabled = Some False, S3BucketName = None, EmitInterval = None,
      S3BucketPrefix = None\<rparr> = Some False \<and> get_caller_identity
      \<lparr>get_caller_identity = Inl \<lparr>Code = ''Throttling'', Message =
      ''Rate exceeded''\<rparr>\<rparr> = Inl \<lparr>Code = ''Throttling'', Message =
      ''Rate exceeded''\<rparr>"
    by simp
  have c4: "remediate_ELB_013 \<lparr>describe_load_balancer_attributes = (\<lambda>name. Inr
      \<lparr>LoadBalancerAttributes = Some \<lparr>AccessLog = Some \<lparr>Enabled = Some
      False, S3BucketName = None, EmitInterval = None, S3BucketPrefix =
      None\<rparr>\<rparr>\<rparr>), modify_load_balancer_attributes = (\<lambda>name
      attributes. Inr ())\<rparr> \<lparr>create_bucket = (\<lambda>acl bucket location. Inr
      ()), put_object = (\<lambda>bucket key. Inr ()), put_bucket_policy = (\<lambda>bucket
      policy. Inr ())\<rparr> \<lparr>get_caller_identity = Inl \<lparr>Code = ''Throttling'',
      Message = ''Rate exceeded''\<rparr>\<rparr> \<lparr>alert_resource_id =
      ''loadbalancer/web'', alert_region = ''us-west-2''\<rparr> = (Inr (), [Call
      (DescribeLoadBalancerAttributes ''web''), Call GetCallerIdentity, Print
      ''Rate exceeded''])"
    using read_failure_aborts [THEN conjunct2, THEN conjunct2, THEN conjunct2, THEN conjunct1, THEN mp, OF h4]
    by simp
  have h5: "py_split CHR ''/'' (alert_resource_id \<lparr>alert_resource_id =
      ''arn:aws:elb:us-west-2:111122223333:lb/app/myelb/abc123'', alert_region =
      ''us-west-2''\<rparr>) = ''arn:aws:elb:us-west-2:111122223333:lb'' # ''app'' # ''myelb'' #
      [''abc123''] \<and> describe_load_balancers \<lparr>describe_load_balancers =
      (\<lambda>names. Inl \<lparr>Code = ''Throttling'', Message = ''Rate exceeded''\<rparr>),
      describe_load_balancer_attributes_v2 = (\<lambda>arn. Inr \<lparr>Attributes = Some (map
      attribute [(''access_logs.s3.enabled'', ''false''), (''idle_timeout.timeout_seconds'',
      ''60'')])\<rparr>), modify_load_balancer_attributes_v2 = (\<lambda>arn attributes. Inr
      ())\<rparr> [''myelb''] = Inl \<lparr>Code = ''Throttling'', Message =
      ''Rate exceeded''\<rparr>"
    by simp
  have c5: "remediate_ELB_015 \<lparr>describe_load_balancers = (\<lambda>names. Inl \<lparr>Code =
      ''Throttling'', Message = ''Rate exceeded''\<rparr>), describe_load_balancer_attributes_v2
      = (\<lambda>arn. Inr \<lparr>Attributes = Some (map attribute
      [(''access_logs.s3.enabled'', ''false''), (''idle_timeout.timeout_seconds'',
      ''60'')])\<rparr>), modify_load_balancer_attributes_v2 = (\<lambda>arn attributes. Inr
      ())\<rparr> \<lparr>create_bucket = (\<lambda>acl bucket location. Inr ()), put_object =
      (\<lambda>bucket key. Inr ()), put_bucket_policy = (\<lambda>bucket policy. Inr
      ())\<rparr> \<lparr>alert_resource_id =
      ''arn:aws:elb:us-west-2:111122223333:lb/app/myelb/abc123'', alert_region =
      ''us-west-2''\<rparr> = (Inr (), [Call (DescribeLoadBalancers [''myelb'']), Print
      ''Rate exceeded''])"
    using read_failure_aborts [THEN conjunct2, THEN conjunct2, THEN conjunct2, THEN conjunct2, THEN conjunct1, THEN mp, OF h5]
    by simp
  have h6: "py_split CHR ''/'' (alert_resource_id \<lparr>alert_resource_id =
      ''arn:aws:elb:us-west-2:111122223333:lb/app/myelb/abc123'', alert_region =
      ''us-west-2''\<rparr>) = ''arn:aws:elb:us-west-2:111122223333:lb'' # ''app'' # ''myelb'' #
      [''abc123''] \<and> describe_load_balancers \<lparr>describe_load_balancers =
      (\<lambda>names. Inr \<lparr>LoadBalancers = Some [\<lparr>LoadBalancerArn = Some
      ''arn:aws:elb:us-west-2:111122223333:lb/app/myelb/abc123''\<rparr>]\<rparr>),
      describe_load_balancer_attributes_v2 = (\<lambda>arn. Inl \<lparr>Code = ''Throttling'',
      Message = ''Rate exceeded''\<rparr>), modify_load_balancer_attributes_v2 = (\<lambda>arn
      attributes. Inr ())\<rparr> [''myelb''] = Inr \<lparr>LoadBalancers = Some
      [\<lparr>LoadBalancerArn = Some
      ''arn:aws:elb:us-west-2:111122223333:lb/app/myelb/abc123''\<rparr>]\<rparr> \<and>
      LoadBalancers \<lparr>LoadBalancers = Some [\<lparr>LoadBalancerArn = Some
      ''arn:aws:elb:us-west-2:111122223333:lb/app/myelb/abc123''\<rparr>]\<rparr> = Some
      (\<lparr>LoadBalancerArn = Some
      ''arn:aws:elb:us-west-2:111122223333:lb/app/myelb/abc123''\<rparr> # []) \<and>
      LoadBalancerArn \<lparr>LoadBalancerArn = Some
      ''arn:aws:elb:us-west-2:111122223333:lb/app/myelb/abc123''\<rparr> = Some
      ''arn:aws:elb:us-west-2:111122223333:lb/app/myelb/abc123'' \<and> 4 < length (py_split CHR
      '':'' ''arn:aws:elb:us-west-2:111122223333:lb/app/myelb/abc123'') \<and>
      describe_load_balancer_attributes_v2 \<lparr>describe_load_balancers = (\<lambda>names.
      Inr \<lparr>LoadBalancers = Some [\<lparr>LoadBalancerArn = Some
      ''arn:aws:elb:us-west-2:111122223333:lb/app/myelb/abc123''\<rparr>]\<rparr>),
      describe_load_balancer_attributes_v2 = (\<lambda>arn. Inl \<lparr>Code = ''Throttling'',
      Message = ''Rate exceeded''\<rparr>), modify_load_balancer_attributes_v2 = (\<lambda>arn
      attributes. Inr ())\<rparr> ''arn:aws:elb:us-west-2:111122223333:lb/app/myelb/abc123'' =
      Inl \<lparr>Code = ''Throttling'', Message = ''Rate exceeded''\<rparr>"
    by simp
  have c6: "remediate_ELB_015 \<lparr>describe_load_balancers = (\<lambda>names. Inr
      \<lparr>LoadBalancers = Some [\<lparr>LoadBalancerArn = Some
      ''arn:aws:elb:us-west-2:111122223333:lb/app/myelb/abc123''\<rparr>]\<rparr>),
      describe_load_balancer_attributes_v2 = (\<lambda>arn. Inl \<lparr>Code = ''Throttling'',
      Message = ''Rate exceeded''\<rparr>), modify_load_balancer_attributes_v2 = (\<lambda>arn
      attributes. Inr ())\<rparr> \<lparr>create_bucket = (\<lambda>acl bucket location. Inr
      ()), put_object = (\<lambda>bucket key. Inr ()), put_bucket_policy = (\<lambda>bucket
      policy. Inr ())\<rparr> \<lparr>alert_resource_id =
      ''arn:aws:elb:us-west-2:111122223333:lb/app/myelb/abc123'', alert_region =
      ''us-west-2''\<rparr> = (Inr (), [Call (DescribeLoadBalancers [''myelb'']), Call
      (DescribeLoadBalancerAttributesV2
      ''arn:aws:elb:us-west-2:111122223333:lb/app/myelb/abc123''), Print ''Rate exceeded''])"
    using read_failure_aborts [THEN conjunct2, THEN conjunct2, THEN conjunct2, THEN conjunct2, THEN conjunct2, THEN mp, OF h6]
    by simp
  from c1 c2 c3 c4 c5 c6 show ?thesis by (intro conjI)
qed

section \<open>Enabling access logs on a v2 load balancer\<close>

text \<open>
  C9. The alert's resource id has \<^verbatim>\<open>myelb\<close> as its third path segment, the lookup by
  name yields a load balancer whose ARN has \<open>account_id\<close> as its fifth colon-separated
  field, the attribute list does not give \<^verbatim>\<open>access_logs.s3.enabled\<close> the value
  \<^verbatim>\<open>true\<close>, and the three storage calls succeed. Then the run returns normally and its
  calls are, in order: the two reads, the creation of bucket
  \<^verbatim>\<open>elbv2logs-<account>-<region>\<close>, the storing of an object without body under key
  \<^verbatim>\<open>myelb/\<close>, the attachment of the bucket policy built for that bucket, account and
  region, and one attribute modification that sets \<^verbatim>\<open>access_logs.s3.enabled\<close> to
  \<^verbatim>\<open>true\<close>, \<^verbatim>\<open>access_logs.s3.bucket\<close> to the bucket and \<^verbatim>\<open>access_logs.s3.prefix\<close> to
  \<^verbatim>\<open>myelb\<close>.
\<close>

theorem remediate_ELB_015_enables_logging:
  assumes "py_split CHR ''/'' (alert_resource_id alert) = q0 # q1 # ''myelb'' # rest"
    and "describe_load_balancers elbv2 [''myelb''] = Inr found"
    and "LoadBalancers found = Some (lb # lbs)"
    and "LoadBalancerArn lb = Some elb_arn"
    and "py_split CHR '':'' elb_arn = a0 # a1 # a2 # a3 # account_id # a5"
    and "describe_load_balancer_attributes_v2 elbv2 elb_arn = Inr described"
    and "Attributes described = Some (map attribute kvs)"
    and "map_of (rev kvs) ''access_logs.s3.enabled'' \<noteq> Some ''true''"
    and "create_bucket s3 ''private'' (''elbv2logs-'' @ account_id @ ''-'' @ alert_region alert)
       (if alert_region alert = ''us-east-1'' then None else Some (alert_region alert)) = Inr ()"
    and "put_object s3 (''elbv2logs-'' @ account_id @ ''-'' @ alert_region alert) ''myelb/'' = Inr ()"
    and "put_bucket_policy s3 (''elbv2logs-'' @ account_id @ ''-'' @ alert_region alert)
       (BucketPolicy_ELB_015 (''elbv2logs-'' @ account_id @ ''-'' @ alert_region alert) account_id (alert_region alert)) = Inr ()"
  shows "fst (remediate_ELB_015 elbv2 s3 alert) = Inr ()
       \<and> calls (snd (remediate_ELB_015 elbv2 s3 alert))
           = [DescribeLoadBalancers [''myelb''],
              DescribeLoadBalancerAttributesV2 elb_arn,
              CreateBucket ''private'' (''elbv2logs-'' @ account_id @ ''-'' @ alert_region alert)
                (if alert_region alert = ''us-east-1'' then None else Some (alert_region alert)),
              PutObject (''elbv2logs-'' @ account_id @ ''-'' @ alert_region alert) ''myelb/'',
              PutBucketPolicy (''elbv2logs-'' @ account_id @ ''-'' @ alert_region alert)
                (BucketPolicy_ELB_015 (''elbv2logs-'' @ account_id @ ''-'' @ alert_region alert) account_id (alert_region alert)),
              ModifyLoadBalancerAttributesV2 elb_arn
                [\<lparr>Key = Some ''access_logs.s3.enabled'', Value = Some ''true''\<rparr>,
                 \<lparr>Key = Some ''access_logs.s3.bucket'',
                  Value = Some (''elbv2logs-'' @ account_id @ ''-'' @ alert_region alert)\<rparr>,
                 \<lparr>Key = Some ''access_logs.s3.prefix'', Value = Some ''myelb''\<rparr>]]"
proof -
  obtain logging where scan: "scan_attribs (map attribute kvs) ''none'' = returns logging"
    and off: "logging \<noteq> ''true''"
    using assms(8) by (cases "map_of (rev kvs) ''access_logs.s3.enabled''")
      (simp_all add: scan_attribs_map_of)
  have bucket: "new_s3_bucket_ELB_015 s3 ''myelb'' account_id (alert_region alert)
      = (Inr (''elbv2logs-'' @ account_id @ ''-'' @ alert_region alert),
         [Call (CreateBucket ''private'' (''elbv2logs-'' @ account_id @ ''-'' @ alert_region alert)
                  (if alert_region alert = ''us-east-1'' then None else Some (alert_region alert))),
          Print (''New S3 bucket created: '' @ (''elbv2logs-'' @ account_id @ ''-'' @ alert_region alert)),
          Call (PutObject (''elbv2logs-'' @ account_id @ ''-'' @ alert_region alert) ''myelb/''),
          Call (PutBucketPolicy (''elbv2logs-'' @ account_id @ ''-'' @ alert_region alert)
                  (BucketPolicy_ELB_015 (''elbv2logs-'' @ account_id @ ''-'' @ alert_region alert) account_id (alert_region alert)))])"
    using assms(9-11)
      new_s3_bucket_ELB_015_created [of s3 account_id "alert_region alert" "''myelb''"]
    by simp
  show ?thesis
    using assms(1-7) off
    by (simp add: remediate_ELB_015_def enable_access_log_ELB_015_def scan bucket
        run_simps Let_def split: sum.splits)
qed


theorem remediate_ELB_015_enables_logging_witness:
  "fst (remediate_ELB_015 \<lparr>describe_load_balancers = (\<lambda>names. Inr
     \<lparr>LoadBalancers = Some [\<lparr>LoadBalancerArn = Some
     ''arn:aws:elb:us-west-2:111122223333:lb/app/myelb/abc123''\<rparr>]\<rparr>),
     describe_load_balancer_attributes_v2 = (\<lambda>arn. Inr \<lparr>Attributes = Some (map
     attribute [(''access_logs.s3.enabled'', ''false''), (''idle_timeout.timeout_seconds'',
     ''60'')])\<rparr>), modify_load_balancer_attributes_v2 = (\<lambda>arn attributes. Inr
     ())\<rparr> \<lparr>create_bucket = (\<lambda>acl bucket location. Inr ()), put_object =
     (\<lambda>bucket key. Inr ()), put_bucket_policy = (\<lambda>bucket policy. Inr ())\<rparr>
     \<lparr>alert_resource_id = ''arn:aws:elb:us-west-2:111122223333:lb/app/myelb/abc123'',
     alert_region = ''us-west-2''\<rparr>) = Inr () \<and> calls (snd (remediate_ELB_015
     \<lparr>describe_load_balancers = (\<lambda>names. Inr \<lparr>LoadBalancers = Some
     [\<lparr>LoadBalancerArn = Some
     ''arn:aws:elb:us-west-2:111122223333:lb/app/myelb/abc123''\<rparr>]\<rparr>),
     describe_load_balancer_attributes_v2 = (\<lambda>arn. Inr \<lparr>Attributes = Some (map
     attribute [(''access_logs.s3.enabled'', ''false''), (''idle_timeout.timeout_seconds'',
     ''60'')])\<rparr>), modify_load_balancer_attributes_v2 = (\<lambda>arn attributes. Inr
     ())\<rparr> \<lparr>create_bucket = (\<lambda>acl bucket location. Inr ()), put_object =
     (\<lambda>bucket key. Inr ()), put_bucket_policy = (\<lambda>bucket policy. Inr ())\<rparr>
     \<lparr>alert_resource_id = ''arn:aws:elb:us-west-2:111122223333:lb/app/myelb/abc123'',
     alert_region = ''us-west-2''\<rparr>)) = [DescribeLoadBalancers [''myelb''],
     DescribeLoadBalancerAttributesV2
     ''arn:aws:elb:us-west-2:111122223333:lb/app/myelb/abc123'', CreateBucket ''private''
     ''elbv2logs-111122223333-us-west-2'' (Some ''us-west-2''), PutObject
     ''elbv2logs-111122223333-us-west-2'' ''myelb/'', PutBucketPolicy
     ''elbv2logs-111122223333-us-west-2'' (BucketPolicy_ELB_015
     ''elbv2logs-111122223333-us-west-2'' ''111122223333'' ''us-west-2''),
     ModifyLoadBalancerAttributesV2 ''arn:aws:elb:us-west-2:111122223333:lb/app/myelb/abc123''
     [\<lparr>Key = Some ''access_logs.s3.enabled'', Value = Some ''true''\<rparr>, \<lparr>Key
     = Some ''access_logs.s3.bucket'', Value = Some
     ''elbv2logs-111122223333-us-west-2''\<rparr>, \<lparr>Key = Some ''access_logs.s3.prefix'',
     Value = Some ''myelb''\<rparr>]]"
proof -
  have h1: "py_split CHR ''/'' (alert_resource_id \<lparr>alert_resource_id =
      ''arn:aws:elb:us-west-2:111122223333:lb/app/myelb/abc123'', alert_region =
      ''us-west-2''\<rparr>) = ''arn:aws:elb:us-west-2:111122223333:lb'' # ''app'' # ''myelb'' #
      [''abc123'']"
    by simp
  have h2: "describe_load_balancers \<lparr>describe_load_balancers = (\<lambda>names. Inr
      \<lparr>LoadBalancers = Some [\<lparr>LoadBalancerArn = Some
      ''arn:aws:elb:us-west-2:111122223333:lb/app/myelb/abc123''\<rparr>]\<rparr>),
      describe_load_balancer_attributes_v2 = (\<lambda>arn. Inr \<lparr>Attributes = Some (map
      attribute [(''access_logs.s3.enabled'', ''false''), (''idle_timeout.timeout_seconds'',
      ''60'')])\<rparr>), modify_load_balancer_attributes_v2 = (\<lambda>arn attributes. Inr
      ())\<rparr> [''myelb''] = Inr \<lparr>LoadBalancers = Some [\<lparr>LoadBalancerArn = Some
      ''arn:aws:elb:us-west-2:111122223333:lb/app/myelb/abc123''\<rparr>]\<rparr>"
    by simp
  have h3: "LoadBalancers \<lparr>LoadBalancers = Some [\<lparr>LoadBalancerArn = Some
      ''arn:aws:elb:us-west-2:111122223333:lb/app/myelb/abc123''\<rparr>]\<rparr> = Some
      (\<lparr>LoadBalancerArn = Some
      ''arn:aws:elb:us-west-2:111122223333:lb/app/myelb/abc123''\<rparr> # [])"
    by simp
  have h4: "LoadBalancerArn \<lparr>LoadBalancerArn = Some
      ''arn:aws:elb:us-west-2:111122223333:lb/app/myelb/abc123''\<rparr> = Some
      ''arn:aws:elb:us-west-2:111122223333:lb/app/myelb/abc123''"
    by simp
  have h5: "py_split CHR '':'' ''arn:aws:elb:us-west-2:111122223333:lb/app/myelb/abc123'' = ''arn'' #
      ''aws'' # ''elb'' # ''us-west-2'' # ''111122223333'' # [''lb/app/myelb/abc123'']"
    by simp
  have h6: "describe_load_balancer_attributes_v2 \<lparr>describe_load_balancers = (\<lambda>names.
      Inr \<lparr>LoadBalancers = Some [\<lparr>LoadBalancerArn = Some
      ''arn:aws:elb:us-west-2:111122223333:lb/app/myelb/abc123''\<rparr>]\<rparr>),
      describe_load_balancer_attributes_v2 = (\<lambda>arn. Inr \<lparr>Attributes = Some (map
      attribute [(''access_logs.s3.enabled'', ''false''), (''idle_timeout.timeout_seconds'',
      ''60'')])\<rparr>), modify_load_balancer_attributes_v2 = (\<lambda>arn attributes. Inr
      ())\<rparr> ''arn:aws:elb:us-west-2:111122223333:lb/app/myelb/abc123'' = Inr
      \<lparr>Attributes = Some (map attribute [(''access_logs.s3.enabled'', ''false''),
      (''idle_timeout.timeout_seconds'', ''60'')])\<rparr>"
    by simp
  have h7: "Attributes \<lparr>Attributes = Some (map attribute [(''access_logs.s3.enabled'',
      ''false''), (''idle_timeout.timeout_seconds'', ''60'')])\<rparr> = Some (map attribute
      [(''access_logs.s3.enabled'', ''false''), (''idle_timeout.timeout_seconds'', ''60'')])"
    by simp
  have h8: "map_of (rev [(''access_logs.s3.enabled'', ''false''), (''idle_timeout.timeout_seconds'',
      ''60'')]) ''access_logs.s3.enabled'' \<noteq> Some ''true''"
    by simp
  have h9: "create_bucket \<lparr>create_bucket = (\<lambda>acl bucket location. Inr ()), put_object =
      (\<lambda>bucket key. Inr ()), put_bucket_policy = (\<lambda>bucket policy. Inr
      ())\<rparr> ''private'' (''elbv2logs-'' @ ''111122223333'' @ ''-'' @ alert_region
      \<lparr>alert_resource_id = ''arn:aws:elb:us-west-2:111122223333:lb/app/myelb/abc123'',
      alert_region = ''us-west-2''\<rparr>) (if alert_region \<lparr>alert_resource_id =
      ''arn:aws:elb:us-west-2:111122223333:lb/app/myelb/abc123'', alert_region =
      ''us-west-2''\<rparr> = ''us-east-1'' then None else Some (alert_region
      \<lparr>alert_resource_id = ''arn:aws:elb:us-west-2:111122223333:lb/app/myelb/abc123'',
      alert_region = ''us-west-2''\<rparr>)) = Inr ()"
    by simp
  have h10: "put_object \<lparr>create_bucket = (\<lambda>acl bucket location. Inr ()), put_object =
      (\<lambda>bucket key. Inr ()), put_bucket_policy = (\<lambda>bucket policy. Inr
      ())\<rparr> (''elbv2logs-'' @ ''111122223333'' @ ''-'' @ alert_region
      \<lparr>alert_resource_id = ''arn:aws:elb:us-west-2:111122223333:lb/app/myelb/abc123'',
      alert_region = ''us-west-2''\<rparr>) ''myelb/'' = Inr ()"
    by simp
  have h11: "put_bucket_policy \<lparr>create_bucket = (\<lambda>acl bucket location. Inr ()),
      put_object = (\<lambda>bucket key. Inr ()), put_bucket_policy = (\<lambda>bucket policy.
      Inr ())\<rparr> (''elbv2logs-'' @ ''111122223333'' @ ''-'' @ alert_region
      \<lparr>alert_resource_id = ''arn:aws:elb:us-west-2:111122223333:lb/app/myelb/abc123'',
      alert_region = ''us-west-2''\<rparr>) (BucketPolicy_ELB_015 (''elbv2logs-'' @
      ''111122223333'' @ ''-'' @ alert_region \<lparr>alert_resource_id =
      ''arn:aws:elb:us-west-2:111122223333:lb/app/myelb/abc123'', alert_region =
      ''us-west-2''\<rparr>) ''111122223333'' (alert_region \<lparr>alert_resource_id =
      ''arn:aws:elb:us-west-2:111122223333:lb/app/myelb/abc123'', alert_region =
      ''us-west-2''\<rparr>)) = Inr ()"
    by simp
  from remediate_ELB_015_enables_logging [OF h1 h2 h3 h4 h5 h6 h7 h8 h9 h10 h11]
  show ?thesis by simp
qed


section \<open>Exceptions that escape\<close>

lemma fst_seq: "fst (seq m f) = (case fst m of Inl e \<Rightarrow> Inl e | Inr v \<Rightarrow> fst (f v))"
  by (cases m) (simp add: seq_def split: sum.splits prod.splits)

lemma fst_steps:
  "fst (returns v) = Inr v"
  "fst (print s) = Inr ()"
  "fst (call c answer) = Inr answer"
  "fst (subscript k (Some x)) = Inr x"
  by (simp_all add: returns_def print_def call_def subscript_def)

lemma new_ebs_snapshot_returns:
  assumes "ec2_answers_complete ec2"
  shows "fst (new_ebs_snapshot ec2 volume_id) = Inr ()"
proof (cases "create_snapshot ec2 volume_id ''Autoremediate snapshot''")
  case (Inl e)
  then show ?thesis by (simp add: new_ebs_snapshot_def fst_seq fst_steps Let_def)
next
  case (Inr created)
  with assms obtain snapshot_id where "SnapshotId created = Some snapshot_id"
    unfolding ec2_answers_complete_def not_None_eq by blast
  with Inr show ?thesis by (simp add: new_ebs_snapshot_def fst_seq fst_steps Let_def)
qed

lemma remediate_EC2_001_returns:
  assumes "ec2_answers_complete ec2"
  shows "fst (remediate_EC2_001 ec2 today alert) = Inr ()"
proof (cases "describe_snapshots ec2 (alert_resource_id alert)")
  case (Inl e)
  then show ?thesis by (simp add: remediate_EC2_001_def fst_seq fst_steps Let_def)
next
  case (Inr response)
  with assms obtain snapshot where snapshot: "Snapshots response = Some snapshot"
    and times: "\<forall>s \<in> set snapshot. StartTime s \<noteq> None"
    unfolding ec2_answers_complete_def by blast
  show ?thesis
  proof (cases snapshot)
    case Nil
    with Inr snapshot show ?thesis
      by (simp add: remediate_EC2_001_def fst_seq fst_steps Let_def new_ebs_snapshot_returns [OF assms])
  next
    case (Cons s rest)
    with times obtain start_time where "StartTime s = Some start_time" by auto
    with Inr snapshot Cons show ?thesis
      by (simp add: remediate_EC2_001_def fst_seq fst_steps Let_def
          new_ebs_snapshot_returns [OF assms])
  qed
qed

lemma remediate_RDS_005_returns:
  assumes "rds_answers_complete rds"
  shows "fst (remediate_RDS_005 rds alert) = Inr ()"
proof (cases "describe_db_instances rds (alert_resource_id alert)")
  case (Inl e)
  then show ?thesis by (simp add: remediate_RDS_005_def fst_seq fst_steps Let_def)
next
  case (Inr response)
  with assms obtain db_instance where found: "DBInstances response = Some db_instance"
    and ids: "\<forall>i \<in> set db_instance. DBInstanceIdentifier i \<noteq> None"
    unfolding rds_answers_complete_def by blast
  show ?thesis
  proof (cases db_instance)
    case Nil
    with Inr found show ?thesis
      by (simp add: remediate_RDS_005_def public_flag_def fst_seq fst_steps Let_def)
  next
    case (Cons i rest)
    with ids obtain instance_id where "DBInstanceIdentifier i = Some instance_id" by auto
    with Inr found Cons show ?thesis
      by (simp add: remediate_RDS_005_def public_flag_def fst_seq fst_steps py_item_def Let_def
          split: sum.splits)
  qed
qed

lemma fst_py_item: "i < length xs \<Longrightarrow> fst (py_item xs i) = Inr (xs ! i)"
  by (simp add: py_item_def returns_def)

lemma new_s3_bucket_ELB_013_returns:
  "\<exists>b. fst (new_s3_bucket_ELB_013 s3 elb_name account_id region) = Inr b"
  by (simp add: new_s3_bucket_ELB_013_def fst_seq fst_steps Let_def split: sum.splits)

lemma new_s3_bucket_ELB_015_returns:
  "\<exists>b. fst (new_s3_bucket_ELB_015 s3 elb_name account_id region) = Inr b"
  by (simp add: new_s3_bucket_ELB_015_def fst_seq fst_steps Let_def split: sum.splits)

lemma enable_access_log_ELB_013_returns:
  "fst (enable_access_log_ELB_013 elb elb_name bucket_name region) = Inr ()"
  by (simp add: enable_access_log_ELB_013_def fst_seq fst_steps Let_def split: sum.splits)

lemma enable_access_log_ELB_015_returns:
  "fst (enable_access_log_ELB_015 elbv2 elb_arn elb_name bucket_name region) = Inr ()"
  by (simp add: enable_access_log_ELB_015_def fst_seq fst_steps Let_def split: sum.splits)

lemma get_account_id_returns:
  assumes "sts_answers_complete sts"
  shows "\<exists>a. fst (get_account_id sts) = Inr a"
proof (cases "get_caller_identity sts")
  case (Inl e)
  then show ?thesis by (simp add: get_account_id_def fst_seq fst_steps)
next
  case (Inr identity)
  with assms obtain a where "Account identity = Some a"
    unfolding sts_answers_complete_def not_None_eq by blast
  with Inr show ?thesis by (simp add: get_account_id_def fst_seq fst_steps)
qed

lemma remediate_ELB_013_returns:
  assumes "elb_answers_complete elb"
    and "sts_answers_complete sts"
    and "1 < length (py_split CHR ''/'' (alert_resource_id alert))"
  shows "fst (remediate_ELB_013 elb s3 sts alert) = Inr ()"
proof (cases "describe_load_balancer_attributes elb (py_split CHR ''/'' (alert_resource_id alert) ! 1)")
  case (Inl e)
  with assms(3) show ?thesis
    by (simp add: remediate_ELB_013_def fst_seq fst_steps fst_py_item Let_def)
next
  case (Inr response)
  with assms(1) obtain attribs logging enabled
    where fields: "LoadBalancerAttributes response = Some attribs"
      "AccessLog attribs = Some logging" "Enabled logging = Some enabled"
    unfolding elb_answers_complete_def by blast
  obtain a where a: "fst (get_account_id sts) = Inr a"
    using get_account_id_returns [OF assms(2)] by blast
  obtain b where b: "fst (new_s3_bucket_ELB_013 s3
      (py_split CHR ''/'' (alert_resource_id alert) ! 1) a (alert_region alert)) = Inr b"
    using new_s3_bucket_ELB_013_returns by blast
  from assms(3) Inr fields a b show ?thesis
    by (simp add: remediate_ELB_013_def fst_seq fst_steps fst_py_item Let_def
        enable_access_log_ELB_013_returns)
qed

lemma remediate_ELB_015_returns:
  assumes "elbv2_answers_complete elbv2"
    and "2 < length (py_split CHR ''/'' (alert_resource_id alert))"
  shows "fst (remediate_ELB_015 elbv2 s3 alert) = Inr ()"
proof (cases "describe_load_balancers elbv2 [py_split CHR ''/'' (alert_resource_id alert) ! 2]")
  case (Inl e)
  with assms(2) show ?thesis
    by (simp add: remediate_ELB_015_def fst_seq fst_steps fst_py_item Let_def)
next
  case (Inr found)
  with assms(1) obtain lbs where lbs: "LoadBalancers found = Some lbs"
    and arns: "\<forall>lb \<in> set lbs. \<forall>arn. LoadBalancerArn lb = Some arn \<longrightarrow>
                 4 < length (py_split CHR '':'' arn)"
    unfolding elbv2_answers_complete_def by blast
  show ?thesis
  proof (cases "case lbs of [] \<Rightarrow> None | lb # _ \<Rightarrow> LoadBalancerArn lb")
    case None
    with assms(2) Inr lbs show ?thesis
      by (simp add: remediate_ELB_015_def fst_seq fst_steps fst_py_item Let_def)
  next
    case (Some elb_arn)
    with arns have long: "4 < length (py_split CHR '':'' elb_arn)"
      by (cases lbs) auto
    show ?thesis
    proof (cases "describe_load_balancer_attributes_v2 elbv2 elb_arn")
      case (Inl e)
      with assms(2) Inr lbs Some long show ?thesis
        by (simp add: remediate_ELB_015_def fst_seq fst_steps fst_py_item Let_def)
    next
      case described: (Inr described)
      with assms(1) obtain kvs where kvs: "Attributes described = Some (map attribute kvs)"
        unfolding elbv2_answers_complete_def by blast
      obtain b where b: "fst (new_s3_bucket_ELB_015 s3
          (py_split CHR ''/'' (alert_resource_id alert) ! 2)
          (py_split CHR '':'' elb_arn ! 4) (alert_region alert)) = Inr b"
        using new_s3_bucket_ELB_015_returns by blast
      from assms(2) Inr lbs Some long described kvs b show ?thesis
        by (simp add: remediate_ELB_015_def fst_seq fst_steps fst_py_item Let_def
            scan_attribs_map_of enable_access_log_ELB_015_returns)
    qed
  qed
qed

section \<open>Provider errors are printed\<close>

lemma errors_logged_append:
  "errors_logged answer t \<Longrightarrow> errors_logged answer (t @ u) = errors_logged answer u"
proof (induction answer t rule: errors_logged.induct)
  case (3 answer c t)
  then show ?case
    by (cases t) (auto split: option.splits event.splits)
qed simp_all

lemma snd_seq:
  "snd (seq m f) = (case fst m of Inl e \<Rightarrow> snd m | Inr v \<Rightarrow> snd m @ snd (f v))"
  by (cases m) (simp add: seq_def split: sum.splits prod.splits)

lemma new_ebs_snapshot_logs_errors:
  "errors_logged (error_EC2_001 ec2) (snd (new_ebs_snapshot ec2 volume_id))"
  by (simp add: new_ebs_snapshot_def run_simps error_of_def surfaces_def
      split: sum.splits option.splits)

lemma remediate_EC2_001_logs_errors:
  "errors_logged (error_EC2_001 ec2) (snd (remediate_EC2_001 ec2 today alert))"
  using new_ebs_snapshot_logs_errors [of ec2 "alert_resource_id alert"]
  by (simp add: remediate_EC2_001_def run_simps Let_def error_of_def surfaces_def
      split: sum.splits option.splits list.splits)

lemma remediate_RDS_005_logs_errors:
  "errors_logged (error_RDS_005 rds) (snd (remediate_RDS_005 rds alert))"
  by (simp add: remediate_RDS_005_def public_flag_def run_simps Let_def error_of_def
      surfaces_def split: sum.splits option.splits list.splits)

lemma new_s3_bucket_ELB_013_logs_errors:
  "errors_logged (error_ELB_013 elb s3 sts)
     (snd (new_s3_bucket_ELB_013 s3 elb_name account_id region))"
  by (simp add: new_s3_bucket_ELB_013_def run_simps Let_def error_of_def surfaces_def
      split: sum.splits)

lemma new_s3_bucket_ELB_015_logs_errors:
  "errors_logged (error_ELB_015 elbv2 s3)
     (snd (new_s3_bucket_ELB_015 s3 elb_name account_id region))"
  by (simp add: new_s3_bucket_ELB_015_def run_simps Let_def error_of_def surfaces_def
      split: sum.splits)

lemma enable_access_log_ELB_013_logs_errors:
  "errors_logged (error_ELB_013 elb s3 sts)
     (snd (enable_access_log_ELB_013 elb elb_name bucket_name region))"
  by (simp add: enable_access_log_ELB_013_def run_simps Let_def error_of_def surfaces_def
      split: sum.splits)

lemma enable_access_log_ELB_015_logs_errors:
  "errors_logged (error_ELB_015 elbv2 s3)
     (snd (enable_access_log_ELB_015 elbv2 elb_arn elb_name bucket_name region))"
  by (simp add: enable_access_log_ELB_015_def run_simps Let_def error_of_def surfaces_def
      split: sum.splits)

lemma get_account_id_logs_errors:
  "errors_logged (error_ELB_013 elb s3 sts) (snd (get_account_id sts))"
  by (simp add: get_account_id_def run_simps error_of_def surfaces_def
      split: sum.splits option.splits)

lemma provision_and_enable_ELB_013_logs_errors:
  "errors_logged (error_ELB_013 elb s3 sts)
     (snd (seq (new_s3_bucket_ELB_013 s3 elb_name account_id region)
             (\<lambda>bucket_name.
                if bucket_name \<noteq> ''fail''
                then enable_access_log_ELB_013 elb elb_name bucket_name region
                else returns ())))"
  by (simp add: snd_seq errors_logged_append new_s3_bucket_ELB_013_logs_errors
      enable_access_log_ELB_013_logs_errors returns_def split: sum.splits)

lemma provision_and_enable_ELB_015_logs_errors:
  "errors_logged (error_ELB_015 elbv2 s3)
     (snd (seq (new_s3_bucket_ELB_015 s3 elb_name account_id region)
             (\<lambda>bucket_name.
                if bucket_name \<noteq> ''fail''
                then enable_access_log_ELB_015 elbv2 elb_arn elb_name bucket_name region
                else returns ())))"
  by (simp add: snd_seq errors_logged_append new_s3_bucket_ELB_015_logs_errors
      enable_access_log_ELB_015_logs_errors returns_def split: sum.splits)

lemma identify_provision_and_enable_logs_errors:
  "errors_logged (error_ELB_013 elb s3 sts)
     (snd (seq (get_account_id sts) (\<lambda>account_id.
           seq (if account_id \<noteq> ''fail''
                then new_s3_bucket_ELB_013 s3 elb_name account_id region
                else returns ''fail'')
             (\<lambda>bucket_name.
                if bucket_name \<noteq> ''fail''
                then enable_access_log_ELB_013 elb elb_name bucket_name region
                else returns ()))))"
proof -
  have tail: "errors_logged (error_ELB_013 elb s3 sts)
     (snd (seq (if account_id \<noteq> ''fail''
                then new_s3_bucket_ELB_013 s3 elb_name account_id region
                else returns ''fail'')
             (\<lambda>bucket_name.
                if bucket_name \<noteq> ''fail''
                then enable_access_log_ELB_013 elb elb_name bucket_name region
                else returns ())))" for account_id
    using provision_and_enable_ELB_013_logs_errors [of elb s3 sts elb_name account_id region]
    by (simp add: run_simps)
  show ?thesis
    by (simp add: snd_seq [of "get_account_id sts"] errors_logged_append
        get_account_id_logs_errors tail split: sum.splits)
qed

lemma remediate_ELB_013_logs_errors:
  "errors_logged (error_ELB_013 elb s3 sts) (snd (remediate_ELB_013 elb s3 sts alert))"
  using identify_provision_and_enable_logs_errors [of elb s3 sts _ "alert_region alert"]
  by (simp add: remediate_ELB_013_def run_simps Let_def error_of_def surfaces_def
      split: sum.splits option.splits)

lemma remediate_ELB_015_logs_errors:
  "errors_logged (error_ELB_015 elbv2 s3) (snd (remediate_ELB_015 elbv2 s3 alert))"
  using provision_and_enable_ELB_015_logs_errors [of elbv2 s3 _ _ "alert_region alert"]
  by (simp add: remediate_ELB_015_def seq_scan_attribs run_simps Let_def error_of_def
      surfaces_def split: sum.splits option.splits list.splits)

text \<open>
  C4, as the code has it. Every API call of the four runbooks is wrapped in a handler
  for the provider's error. So, whichever calls fail, the entry point returns normally,
  provided that the answers that do succeed carry the fields the runbook reads and that
  the alert's resource id has the path segments the load-balancer runbooks index (two
  for the classic one, three for the v2 one). And in every run, each call that the
  provider answers with an error is followed at once by a printed line that surfaces
  that error: the error is printed, never passed on.
\<close>

theorem provider_errors_never_escape:
  "(ec2_answers_complete ec2 \<longrightarrow> fst (remediate_EC2_001 ec2 today alert) = Inr ())
   \<and> (rds_answers_complete rds \<longrightarrow> fst (remediate_RDS_005 rds alert) = Inr ())
   \<and> (elb_answers_complete elb \<and> sts_answers_complete sts
        \<and> 1 < length (py_split CHR ''/'' (alert_resource_id alert))
      \<longrightarrow> fst (remediate_ELB_013 elb s3 sts alert) = Inr ())
   \<and> (elbv2_answers_complete elbv2
        \<and> 2 < length (py_split CHR ''/'' (alert_resource_id alert))
      \<longrightarrow> fst (remediate_ELB_015 elbv2 s3 alert) = Inr ())
   \<and> errors_logged (error_EC2_001 ec2) (snd (remediate_EC2_001 ec2 today alert))
   \<and> errors_logged (error_RDS_005 rds) (snd (remediate_RDS_005 rds alert))
   \<and> errors_logged (error_ELB_013 elb s3 sts) (snd (remediate_ELB_013 elb s3 sts alert))
   \<and> errors_logged (error_ELB_015 elbv2 s3) (snd (remediate_ELB_015 elbv2 s3 alert))"
  using remediate_EC2_001_returns [of ec2 today alert] remediate_RDS_005_returns [of rds alert]
    remediate_ELB_013_returns [of elb sts alert s3] remediate_ELB_015_returns [of elbv2 alert s3]
    remediate_EC2_001_logs_errors [of ec2 today alert] remediate_RDS_005_logs_errors [of rds alert]
    remediate_ELB_013_logs_errors [of elb s3 sts alert]
    remediate_ELB_015_logs_errors [of elbv2 s3 alert]
  by blast

lemma attribute_list_ex: "\<exists>kvs. map attribute xs = map attribute kvs"
  by (rule exI) (rule refl)

theorem provider_errors_never_escape_witness:
  "fst (remediate_EC2_001 \<lparr>describe_snapshots = (\<lambda>volume. Inr \<lparr>Snapshots
     = Some [\<lparr>StartTime = Some \<lparr>day_ordinal = 738000, second_of_day =
     0\<rparr>\<rparr>]\<rparr>), create_snapshot = (\<lambda>volume description. Inl
     \<lparr>Code = ''Throttling'', Message = ''Rate exceeded''\<rparr>)\<rparr> 738030
     \<lparr>alert_resource_id = ''vol-0abc'', alert_region = ''us-east-1''\<rparr>) = Inr ()
   \<and> fst (remediate_RDS_005 \<lparr>describe_db_instances = (\<lambda>resource. Inr
     \<lparr>DBInstances = Some [\<lparr>PubliclyAccessible = Some True, DBInstanceIdentifier =
     Some ''orders-db''\<rparr>]\<rparr>), modify_db_instance = (\<lambda>instance public. Inl
     \<lparr>Code = ''AccessDenied'', Message = ''Access Denied''\<rparr>)\<rparr>
     \<lparr>alert_resource_id = ''db-ABCDEFGH'', alert_region = ''eu-west-1''\<rparr>) = Inr ()
   \<and> fst (remediate_ELB_013 \<lparr>describe_load_balancer_attributes = (\<lambda>name. Inr
     \<lparr>LoadBalancerAttributes = Some \<lparr>AccessLog = Some \<lparr>Enabled = Some
     False, S3BucketName = None, EmitInterval = None, S3BucketPrefix =
     None\<rparr>\<rparr>\<rparr>), modify_load_balancer_attributes = (\<lambda>name attributes.
     Inl \<lparr>Code = ''AccessDenied'', Message = ''Access Denied''\<rparr>)\<rparr>
     \<lparr>create_bucket = (\<lambda>acl bucket location. Inr ()), put_object =
     (\<lambda>bucket key. Inr ()), put_bucket_policy = (\<lambda>bucket policy. Inr ())\<rparr>
     \<lparr>get_caller_identity = Inr \<lparr>Account = Some ''111122223333''\<rparr>\<rparr>
     \<lparr>alert_resource_id = ''loadbalancer/web'', alert_region = ''us-west-2''\<rparr>) =
     Inr ()
   \<and> fst (remediate_ELB_015 \<lparr>describe_load_balancers = (\<lambda>names. Inr
     \<lparr>LoadBalancers = Some [\<lparr>LoadBalancerArn = Some
     ''arn:aws:elb:us-west-2:111122223333:lb/app/myelb/abc123''\<rparr>]\<rparr>),
     describe_load_balancer_attributes_v2 = (\<lambda>arn. Inr \<lparr>Attributes = Some (map
     attribute [(''access_logs.s3.enabled'', ''false''), (''idle_timeout.timeout_seconds'',
     ''60'')])\<rparr>), modify_load_balancer_attributes_v2 = (\<lambda>arn attributes. Inr
     ())\<rparr> \<lparr>create_bucket = (\<lambda>acl bucket location. Inr ()), put_object =
     (\<lambda>bucket key. Inr ()), put_bucket_policy = (\<lambda>bucket policy. Inl
     \<lparr>Code = ''MalformedPolicy'', Message =
     ''Invalid principal in policy''\<rparr>)\<rparr> \<lparr>alert_resource_id =
     ''arn:aws:elb:us-west-2:111122223333:lb/app/myelb/abc123'', alert_region =
     ''us-west-2''\<rparr>) = Inr ()
   \<and> errors_logged (error_EC2_001 \<lparr>describe_snapshots = (\<lambda>volume. Inr
     \<lparr>Snapshots = Some [\<lparr>StartTime = Some \<lparr>day_ordinal = 738000,
     second_of_day = 0\<rparr>\<rparr>]\<rparr>), create_snapshot = (\<lambda>volume
     description. Inl \<lparr>Code = ''Throttling'', Message =
     ''Rate exceeded''\<rparr>)\<rparr>) (snd (remediate_EC2_001 \<lparr>describe_snapshots =
     (\<lambda>volume. Inr \<lparr>Snapshots = Some [\<lparr>StartTime = Some
     \<lparr>day_ordinal = 738000, second_of_day = 0\<rparr>\<rparr>]\<rparr>), create_snapshot
     = (\<lambda>volume description. Inl \<lparr>Code = ''Throttling'', Message =
     ''Rate exceeded''\<rparr>)\<rparr> 738030 \<lparr>alert_resource_id = ''vol-0abc'',
     alert_region = ''us-east-1''\<rparr>))
   \<and> errors_logged (error_RDS_005 \<lparr>describe_db_instances = (\<lambda>resource. Inr
     \<lparr>DBInstances = Some [\<lparr>PubliclyAccessible = Some True, DBInstanceIdentifier =
     Some ''orders-db''\<rparr>]\<rparr>), modify_db_instance = (\<lambda>instance public. Inl
     \<lparr>Code = ''AccessDenied'', Message = ''Access Denied''\<rparr>)\<rparr>) (snd
     (remediate_RDS_005 \<lparr>describe_db_instances = (\<lambda>resource. Inr
     \<lparr>DBInstances = Some [\<lparr>PubliclyAccessible = Some True, DBInstanceIdentifier =
     Some ''orders-db''\<rparr>]\<rparr>), modify_db_instance = (\<lambda>instance public. Inl
     \<lparr>Code = ''AccessDenied'', Message = ''Access Denied''\<rparr>)\<rparr>
     \<lparr>alert_resource_id = ''db-ABCDEFGH'', alert_region = ''eu-west-1''\<rparr>))
   \<and> errors_logged (error_ELB_013 \<lparr>describe_load_balancer_attributes = (\<lambda>name.
     Inr \<lparr>LoadBalancerAttributes = Some \<lparr>AccessLog = Some \<lparr>Enabled = Some
     False, S3BucketName = None, EmitInterval = None, S3BucketPrefix =
     None\<rparr>\<rparr>\<rparr>), modify_load_balancer_attributes = (\<lambda>name attributes.
     Inl \<lparr>Code = ''AccessDenied'', Message = ''Access Denied''\<rparr>)\<rparr>
     \<lparr>create_bucket = (\<lambda>acl bucket location. Inr ()), put_object =
     (\<lambda>bucket key. Inr ()), put_bucket_policy = (\<lambda>bucket policy. Inr ())\<rparr>
     \<lparr>get_caller_identity = Inr \<lparr>Account = Some ''111122223333''\<rparr>\<rparr>)
     (snd (remediate_ELB_013 \<lparr>describe_load_balancer_attributes = (\<lambda>name. Inr
     \<lparr>LoadBalancerAttributes = Some \<lparr>AccessLog = Some \<lparr>Enabled = Some
     False, S3BucketName = None, EmitInterval = None, S3BucketPrefix =
     None\<rparr>\<rparr>\<rparr>), modify_load_balancer_attributes = (\<lambda>name attributes.
     Inl \<lparr>Code = ''AccessDenied'', Message = ''Access Denied''\<rparr>)\<rparr>
     \<lparr>create_bucket = (\<lambda>acl bucket location. Inr ()), put_object =
     (\<lambda>bucket key. Inr ()), put_bucket_policy = (\<lambda>bucket policy. Inr ())\<rparr>
     \<lparr>get_caller_identity = Inr \<lparr>Account = Some ''111122223333''\<rparr>\<rparr>
     \<lparr>alert_resource_id = ''loadbalancer/web'', alert_region = ''us-west-2''\<rparr>))
   \<and> errors_logged (error_ELB_015 \<lparr>describe_load_balancers = (\<lambda>names. Inr
     \<lparr>LoadBalancers = Some [\<lparr>LoadBalancerArn = Some
     ''arn:aws:elb:us-west-2:111122223333:lb/app/myelb/abc123''\<rparr>]\<rparr>),
     describe_load_balancer_attributes_v2 = (\<lambda>arn. Inr \<lparr>Attributes = Some (map
     attribute [(''access_logs.s3.enabled'', ''false''), (''idle_timeout.timeout_seconds'',
     ''60'')])\<rparr>), modify_load_balancer_attributes_v2 = (\<lambda>arn attributes. Inr
     ())\<rparr> \<lparr>create_bucket = (\<lambda>acl bucket location. Inr ()), put_object =
     (\<lambda>bucket key. Inr ()), put_bucket_policy = (\<lambda>bucket policy. Inl
     \<lparr>Code = ''MalformedPolicy'', Message =
     ''Invalid principal in policy''\<rparr>)\<rparr>) (snd (remediate_ELB_015
     \<lparr>describe_load_balancers = (\<lambda>names. Inr \<lparr>LoadBalancers = Some
     [\<lparr>LoadBalancerArn = Some
     ''arn:aws:elb:us-west-2:111122223333:lb/app/myelb/abc123''\<rparr>]\<rparr>),
     describe_load_balancer_attributes_v2 = (\<lambda>arn. Inr \<lparr>Attributes = Some (map
     attribute [(''access_logs.s3.enabled'', ''false''), (''idle_timeout.timeout_seconds'',
     ''60'')])\<rparr>), modify_load_balancer_attributes_v2 = (\<lambda>arn attributes. Inr
     ())\<rparr> \<lparr>create_bucket = (\<lambda>acl bucket location. Inr ()), put_object =
     (\<lambda>bucket key. Inr ()), put_bucket_policy = (\<lambda>bucket policy. Inl
     \<lparr>Code = ''MalformedPolicy'', Message =
     ''Invalid principal in policy''\<rparr>)\<rparr> \<lparr>alert_resource_id =
     ''arn:aws:elb:us-west-2:111122223333:lb/app/myelb/abc123'', alert_region =
     ''us-west-2''\<rparr>))"
proof -
  have h1: "ec2_answers_complete \<lparr>describe_snapshots = (\<lambda>volume. Inr \<lparr>Snapshots
      = Some [\<lparr>StartTime = Some \<lparr>day_ordinal = 738000, second_of_day =
      0\<rparr>\<rparr>]\<rparr>), create_snapshot = (\<lambda>volume description. Inl
      \<lparr>Code = ''Throttling'', Message = ''Rate exceeded''\<rparr>)\<rparr>"
    by (auto simp add: ec2_answers_complete_def rds_answers_complete_def elb_answers_complete_def sts_answers_complete_def elbv2_answers_complete_def attribute_list_ex simp del: list.map)
  have c1: "fst (remediate_EC2_001 \<lparr>describe_snapshots = (\<lambda>volume. Inr
      \<lparr>Snapshots = Some [\<lparr>StartTime = Some \<lparr>day_ordinal = 738000,
      second_of_day = 0\<rparr>\<rparr>]\<rparr>), create_snapshot = (\<lambda>volume
      description. Inl \<lparr>Code = ''Throttling'', Message =
      ''Rate exceeded''\<rparr>)\<rparr> 738030 \<lparr>alert_resource_id = ''vol-0abc'',
      alert_region = ''us-east-1''\<rparr>) = Inr ()"
    using provider_errors_never_escape [THEN conjunct1, THEN mp, OF h1]
    by simp
  have h2: "rds_answers_complete \<lparr>describe_db_instances = (\<lambda>resource. Inr
      \<lparr>DBInstances = Some [\<lparr>PubliclyAccessible = Some True, DBInstanceIdentifier =
      Some ''orders-db''\<rparr>]\<rparr>), modify_db_instance = (\<lambda>instance public. Inl
      \<lparr>Code = ''AccessDenied'', Message = ''Access Denied''\<rparr>)\<rparr>"
    by (auto simp add: ec2_answers_complete_def rds_answers_complete_def elb_answers_complete_def sts_answers_complete_def elbv2_answers_complete_def attribute_list_ex simp del: list.map)
  have c2: "fst (remediate_RDS_005 \<lparr>describe_db_instances = (\<lambda>resource. Inr
      \<lparr>DBInstances = Some [\<lparr>PubliclyAccessible = Some True, DBInstanceIdentifier =
      Some ''orders-db''\<rparr>]\<rparr>), modify_db_instance = (\<lambda>instance public. Inl
      \<lparr>Code = ''AccessDenied'', Message = ''Access Denied''\<rparr>)\<rparr>
      \<lparr>alert_resource_id = ''db-ABCDEFGH'', alert_region = ''eu-west-1''\<rparr>) = Inr
      ()"
    using provider_errors_never_escape [THEN conjunct2, THEN conjunct1, THEN mp, OF h2]
    by simp
  have h3: "elb_answers_complete \<lparr>describe_load_balancer_attributes = (\<lambda>name. Inr
      \<lparr>LoadBalancerAttributes = Some \<lparr>AccessLog = Some \<lparr>Enabled = Some
      False, S3BucketName = None, EmitInterval = None, S3BucketPrefix =
      None\<rparr>\<rparr>\<rparr>), modify_load_balancer_attributes = (\<lambda>name
      attributes. Inl \<lparr>Code = ''AccessDenied'', Message =
      ''Access Denied''\<rparr>)\<rparr> \<and> sts_answers_complete \<lparr>get_caller_identity
      = Inr \<lparr>Account = Some ''111122223333''\<rparr>\<rparr> \<and> 1 < length (py_split
      CHR ''/'' (alert_resource_id \<lparr>alert_resource_id = ''loadbalancer/web'',
      alert_region = ''us-west-2''\<rparr>))"
    by (auto simp add: ec2_answers_complete_def rds_answers_complete_def elb_answers_complete_def sts_answers_complete_def elbv2_answers_complete_def attribute_list_ex simp del: list.map)
  have c3: "fst (remediate_ELB_013 \<lparr>describe_load_balancer_attributes = (\<lambda>name. Inr
      \<lparr>LoadBalancerAttributes = Some \<lparr>AccessLog = Some \<lparr>Enabled = Some
      False, S3BucketName = None, EmitInterval = None, S3BucketPrefix =
      None\<rparr>\<rparr>\<rparr>), modify_load_balancer_attributes = (\<lambda>name
      attributes. Inl \<lparr>Code = ''AccessDenied'', Message =
      ''Access Denied''\<rparr>)\<rparr> \<lparr>create_bucket = (\<lambda>acl bucket location.
      Inr ()), put_object = (\<lambda>bucket key. Inr ()), put_bucket_policy = (\<lambda>bucket
      policy. Inr ())\<rparr> \<lparr>get_caller_identity = Inr \<lparr>Account = Some
      ''111122223333''\<rparr>\<rparr> \<lparr>alert_resource_id = ''loadbalancer/web'',
      alert_region = ''us-west-2''\<rparr>) = Inr ()"
    using provider_errors_never_escape [THEN conjunct2, THEN conjunct2, THEN conjunct1, THEN mp, OF h3]
    by simp
  have h4: "elbv2_answers_complete \<lparr>describe_load_balancers = (\<lambda>names. Inr
      \<lparr>LoadBalancers = Some [\<lparr>LoadBalancerArn = Some
      ''arn:aws:elb:us-west-2:111122223333:lb/app/myelb/abc123''\<rparr>]\<rparr>),
      describe_load_balancer_attributes_v2 = (\<lambda>arn. Inr \<lparr>Attributes = Some (map
      attribute [(''access_logs.s3.enabled'', ''false''), (''idle_timeout.timeout_seconds'',
      ''60'')])\<rparr>), modify_load_balancer_attributes_v2 = (\<lambda>arn attributes. Inr
      ())\<rparr> \<and> 2 < length (py_split CHR ''/'' (alert_resource_id
      \<lparr>alert_resource_id = ''arn:aws:elb:us-west-2:111122223333:lb/app/myelb/abc123'',
      alert_region = ''us-west-2''\<rparr>))"
    by (auto simp add: ec2_answers_complete_def rds_answers_complete_def elb_answers_complete_def sts_answers_complete_def elbv2_answers_complete_def attribute_list_ex simp del: list.map)
  have c4: "fst (remediate_ELB_015 \<lparr>describe_load_balancers = (\<lambda>names. Inr
      \<lparr>LoadBalancers = Some [\<lparr>LoadBalancerArn = Some
      ''arn:aws:elb:us-west-2:111122223333:lb/app/myelb/abc123''\<rparr>]\<rparr>),
      describe_load_balancer_attributes_v2 = (\<lambda>arn. Inr \<lparr>Attributes = Some (map
      attribute [(''access_logs.s3.enabled'', ''false''), (''idle_timeout.timeout_seconds'',
      ''60'')])\<rparr>), modify_load_balancer_attributes_v2 = (\<lambda>arn attributes. Inr
      ())\<rparr> \<lparr>create_bucket = (\<lambda>acl bucket location. Inr ()), put_object =
      (\<lambda>bucket key. Inr ()), put_bucket_policy = (\<lambda>bucket policy. Inl
      \<lparr>Code = ''MalformedPolicy'', Message =
      ''Invalid principal in policy''\<rparr>)\<rparr> \<lparr>alert_resource_id =
      ''arn:aws:elb:us-west-2:111122223333:lb/app/myelb/abc123'', alert_region =
      ''us-west-2''\<rparr>) = Inr ()"
    using provider_errors_never_escape [THEN conjunct2, THEN conjunct2, THEN conjunct2, THEN conjunct1, THEN mp, OF h4]
    by simp
  have l1: "errors_logged (error_EC2_001 \<lparr>describe_snapshots = (\<lambda>volume. Inr
      \<lparr>Snapshots = Some [\<lparr>StartTime = Some \<lparr>day_ordinal = 738000,
      second_of_day = 0\<rparr>\<rparr>]\<rparr>), create_snapshot = (\<lambda>volume
      description. Inl \<lparr>Code = ''Throttling'', Message =
      ''Rate exceeded''\<rparr>)\<rparr>) (snd (remediate_EC2_001 \<lparr>describe_snapshots =
      (\<lambda>volume. Inr \<lparr>Snapshots = Some [\<lparr>StartTime = Some
      \<lparr>day_ordinal = 738000, second_of_day = 0\<rparr>\<rparr>]\<rparr>), create_snapshot
      = (\<lambda>volume description. Inl \<lparr>Code = ''Throttling'', Message =
      ''Rate exceeded''\<rparr>)\<rparr> 738030 \<lparr>alert_resource_id = ''vol-0abc'',
      alert_region = ''us-east-1''\<rparr>))"
    by (rule provider_errors_never_escape [THEN conjunct2, THEN conjunct2, THEN conjunct2, THEN conjunct2, THEN conjunct1])
  have l2: "errors_logged (error_RDS_005 \<lparr>describe_db_instances = (\<lambda>resource. Inr
      \<lparr>DBInstances = Some [\<lparr>PubliclyAccessible = Some True, DBInstanceIdentifier =
      Some ''orders-db''\<rparr>]\<rparr>), modify_db_instance = (\<lambda>instance public. Inl
      \<lparr>Code = ''AccessDenied'', Message = ''Access Denied''\<rparr>)\<rparr>) (snd
      (remediate_RDS_005 \<lparr>describe_db_instances = (\<lambda>resource. Inr
      \<lparr>DBInstances = Some [\<lparr>PubliclyAccessible = Some True, DBInstanceIdentifier =
      Some ''orders-db''\<rparr>]\<rparr>), modify_db_instance = (\<lambda>instance public. Inl
      \<lparr>Code = ''AccessDenied'', Message = ''Access Denied''\<rparr>)\<rparr>
      \<lparr>alert_resource_id = ''db-ABCDEFGH'', alert_region = ''eu-west-1''\<rparr>))"
    by (rule provider_errors_never_escape [THEN conjunct2, THEN conjunct2, THEN conjunct2, THEN conjunct2, THEN conjunct2, THEN conjunct1])
  have l3: "errors_logged (error_ELB_013 \<lparr>describe_load_balancer_attributes = (\<lambda>name.
      Inr \<lparr>LoadBalancerAttributes = Some \<lparr>AccessLog = Some \<lparr>Enabled = Some
      False, S3BucketName = None, EmitInterval = None, S3BucketPrefix =
      None\<rparr>\<rparr>\<rparr>), modify_load_balancer_attributes = (\<lambda>name
      attributes. Inl \<lparr>Code = ''AccessDenied'', Message =
      ''Access Denied''\<rparr>)\<rparr> \<lparr>create_bucket = (\<lambda>acl bucket location.
      Inr ()), put_object = (\<lambda>bucket key. Inr ()), put_bucket_policy = (\<lambda>bucket
      policy. Inr ())\<rparr> \<lparr>get_caller_identity = Inr \<lparr>Account = Some
      ''111122223333''\<rparr>\<rparr>) (snd (remediate_ELB_013
      \<lparr>describe_load_balancer_attributes = (\<lambda>name. Inr
      \<lparr>LoadBalancerAttributes = Some \<lparr>AccessLog = Some \<lparr>Enabled = Some
      False, S3BucketName = None, EmitInterval = None, S3BucketPrefix =
      None\<rparr>\<rparr>\<rparr>), modify_load_balancer_attributes = (\<lambda>name
      attributes. Inl \<lparr>Code = ''AccessDenied'', Message =
      ''Access Denied''\<rparr>)\<rparr> \<lparr>create_bucket = (\<lambda>acl bucket location.
      Inr ()), put_object = (\<lambda>bucket key. Inr ()), put_bucket_policy = (\<lambda>bucket
      policy. Inr ())\<rparr> \<lparr>get_caller_identity = Inr \<lparr>Account = Some
      ''111122223333''\<rparr>\<rparr> \<lparr>alert_resource_id = ''loadbalancer/web'',
      alert_region = ''us-west-2''\<rparr>))"
    by (rule provider_errors_never_escape [THEN conjunct2, THEN conjunct2, THEN conjunct2, THEN conjunct2, THEN conjunct2, THEN conjunct2, THEN conjunct1])
  have l4: "errors_logged (error_ELB_015 \<lparr>describe_load_balancers = (\<lambda>names. Inr
      \<lparr>LoadBalancers = Some [\<lparr>LoadBalancerArn = Some
      ''arn:aws:elb:us-west-2:111122223333:lb/app/myelb/abc123''\<rparr>]\<rparr>),
      describe_load_balancer_attributes_v2 = (\<lambda>arn. Inr \<lparr>Attributes = Some (map
      attribute [(''access_logs.s3.enabled'', ''false''), (''idle_timeout.timeout_seconds'',
      ''60'')])\<rparr>), modify_load_balancer_attributes_v2 = (\<lambda>arn attributes. Inr
      ())\<rparr> \<lparr>create_bucket = (\<lambda>acl bucket location. Inr ()), put_object =
      (\<lambda>bucket key. Inr ()), put_bucket_policy = (\<lambda>bucket policy. Inl
      \<lparr>Code = ''MalformedPolicy'', Message =
      ''Invalid principal in policy''\<rparr>)\<rparr>) (snd (remediate_ELB_015
      \<lparr>describe_load_balancers = (\<lambda>names. Inr \<lparr>LoadBalancers = Some
      [\<lparr>LoadBalancerArn = Some
      ''arn:aws:elb:us-west-2:111122223333:lb/app/myelb/abc123''\<rparr>]\<rparr>),
      describe_load_balancer_attributes_v2 = (\<lambda>arn. Inr \<lparr>Attributes = Some (map
      attribute [(''access_logs.s3.enabled'', ''false''), (''idle_timeout.timeout_seconds'',
      ''60'')])\<rparr>), modify_load_balancer_attributes_v2 = (\<lambda>arn attributes. Inr
      ())\<rparr> \<lparr>create_bucket = (\<lambda>acl bucket location. Inr ()), put_object =
      (\<lambda>bucket key. Inr ()), put_bucket_policy = (\<lambda>bucket policy. Inl
      \<lparr>Code = ''MalformedPolicy'', Message =
      ''Invalid principal in policy''\<rparr>)\<rparr> \<lparr>alert_resource_id =
      ''arn:aws:elb:us-west-2:111122223333:lb/app/myelb/abc123'', alert_region =
      ''us-west-2''\<rparr>))"
    by (rule provider_errors_never_escape [THEN conjunct2, THEN conjunct2, THEN conjunct2, THEN conjunct2, THEN conjunct2, THEN conjunct2, THEN conjunct2])
  from c1 c2 c3 c4 l1 l2 l3 l4 show ?thesis by (intro conjI)
qed

text \<open>
  The claim as stated fails for an alert whose resource id has no \<^verbatim>\<open>/\<close>: the classic
  load-balancer runbook indexes the second path segment before any call and the
  \<^verbatim>\<open>IndexError\<close> escapes.
\<close>

theorem short_resource_id_counterexample:
  "remediate_ELB_013 \<lparr>describe_load_balancer_attributes = (\<lambda>name. Inr
     \<lparr>LoadBalancerAttributes = Some \<lparr>AccessLog = Some \<lparr>Enabled = Some
     False, S3BucketName = None, EmitInterval = None, S3BucketPrefix =
     None\<rparr>\<rparr>\<rparr>), modify_load_balancer_attributes = (\<lambda>name attributes.
     Inr ())\<rparr> \<lparr>create_bucket = (\<lambda>acl bucket location. Inr ()), put_object
     = (\<lambda>bucket key. Inr ()), put_bucket_policy = (\<lambda>bucket policy. Inr
     ())\<rparr> \<lparr>get_caller_identity = Inr \<lparr>Account = Some
     ''111122223333''\<rparr>\<rparr> \<lparr>alert_resource_id = ''web'', alert_region =
     ''us-west-2''\<rparr> = (Inl IndexError, [])"
  by (simp add: remediate_ELB_013_def run_simps Let_def)

section \<open>Absent resources and missing fields\<close>

lemma calls_seq_left: "c \<in> set (calls (snd m)) \<Longrightarrow> c \<in> set (calls (snd (seq m f)))"
  by (cases m) (auto simp add: seq_def calls_append split: sum.splits prod.splits)

lemma new_s3_bucket_ELB_015_creates:
  "CreateBucket ''private'' (''elbv2logs-'' @ account_id @ ''-'' @ region)
     (if region = ''us-east-1'' then None else Some region)
     \<in> set (calls (snd (new_s3_bucket_ELB_015 s3 elb_name account_id region)))"
  by (simp add: new_s3_bucket_ELB_015_def run_simps Let_def split: sum.splits)

text \<open>
  C5, as the code has it. The database runbook makes no call beyond the describe call
  and raises nothing when no instance record is returned or the first record has no
  \<^verbatim>\<open>PubliclyAccessible\<close> field. The v2 load-balancer runbook makes no call beyond the
  lookup and raises nothing when the lookup returns no load balancer or the first record
  has no ARN; it prints that the ARN was not found. But when the attribute list of a v2
  load balancer has no \<^verbatim>\<open>access_logs.s3.enabled\<close> entry, the runbook takes logging to
  be off and goes on to provision the bucket.
\<close>

theorem missing_record_or_field:
  "(describe_db_instances rds (alert_resource_id alert) = Inr response
      \<and> DBInstances response = Some db_instance
      \<and> (\<forall>i others. db_instance = i # others \<longrightarrow> PubliclyAccessible i = None)
      \<longrightarrow> remediate_RDS_005 rds alert
            = (Inr (), [Call (DescribeDBInstances (alert_resource_id alert))]))
   \<and> (py_split CHR ''/'' (alert_resource_id alert) = q0 # q1 # elb_name # rest
      \<and> describe_load_balancers elbv2 [elb_name] = Inr found
      \<and> LoadBalancers found = Some lbs
      \<and> (\<forall>lb others. lbs = lb # others \<longrightarrow> LoadBalancerArn lb = None)
      \<longrightarrow> remediate_ELB_015 elbv2 s3 alert
            = (Inr (), [Call (DescribeLoadBalancers [elb_name]),
                        Print (''Error: Unable to find the ARN for Application ELB ''
                                 @ elb_name @ ''.'')]))
   \<and> (py_split CHR ''/'' (alert_resource_id alert) = q0 # q1 # elb_name # rest
      \<and> describe_load_balancers elbv2 [elb_name] = Inr found
      \<and> LoadBalancers found = Some (lb # others)
      \<and> LoadBalancerArn lb = Some elb_arn
      \<and> py_split CHR '':'' elb_arn = a0 # a1 # a2 # a3 # account_id # a5
      \<and> describe_load_balancer_attributes_v2 elbv2 elb_arn = Inr described
      \<and> Attributes described = Some (map attribute kvs)
      \<and> map_of (rev kvs) ''access_logs.s3.enabled'' = None
      \<longrightarrow> CreateBucket ''private'' (''elbv2logs-'' @ account_id @ ''-'' @ alert_region alert)
              (if alert_region alert = ''us-east-1'' then None else Some (alert_region alert))
            \<in> set (calls (snd (remediate_ELB_015 elbv2 s3 alert))))"
proof (intro conjI impI)
  assume "describe_db_instances rds (alert_resource_id alert) = Inr response
      \<and> DBInstances response = Some db_instance
      \<and> (\<forall>i others. db_instance = i # others \<longrightarrow> PubliclyAccessible i = None)"
  then show "remediate_RDS_005 rds alert
            = (Inr (), [Call (DescribeDBInstances (alert_resource_id alert))])"
    by (cases db_instance)
       (simp_all add: remediate_RDS_005_def public_flag_def run_simps Let_def)
next
  assume "py_split CHR ''/'' (alert_resource_id alert) = q0 # q1 # elb_name # rest
      \<and> describe_load_balancers elbv2 [elb_name] = Inr found
      \<and> LoadBalancers found = Some lbs
      \<and> (\<forall>lb others. lbs = lb # others \<longrightarrow> LoadBalancerArn lb = None)"
  then show "remediate_ELB_015 elbv2 s3 alert
            = (Inr (), [Call (DescribeLoadBalancers [elb_name]),
                        Print (''Error: Unable to find the ARN for Application ELB ''
                                 @ elb_name @ ''.'')])"
    by (cases lbs) (simp_all add: remediate_ELB_015_def run_simps Let_def)
next
  assume h: "py_split CHR ''/'' (alert_resource_id alert) = q0 # q1 # elb_name # rest
      \<and> describe_load_balancers elbv2 [elb_name] = Inr found
      \<and> LoadBalancers found = Some (lb # others)
      \<and> LoadBalancerArn lb = Some elb_arn
      \<and> py_split CHR '':'' elb_arn = a0 # a1 # a2 # a3 # account_id # a5
      \<and> describe_load_balancer_attributes_v2 elbv2 elb_arn = Inr described
      \<and> Attributes described = Some (map attribute kvs)
      \<and> map_of (rev kvs) ''access_logs.s3.enabled'' = None"
  then have scan: "scan_attribs (map attribute kvs) ''none'' = returns ''none''"
    by (simp add: scan_attribs_map_of)
  let ?tail = "seq (new_s3_bucket_ELB_015 s3 elb_name account_id (alert_region alert))
      (\<lambda>bucket_name.
         if bucket_name \<noteq> ''fail''
         then enable_access_log_ELB_015 elbv2 elb_arn elb_name bucket_name (alert_region alert)
         else returns ())"
  have tail: "CreateBucket ''private'' (''elbv2logs-'' @ account_id @ ''-'' @ alert_region alert)
      (if alert_region alert = ''us-east-1'' then None else Some (alert_region alert))
      \<in> set (calls (snd ?tail))"
    by (rule calls_seq_left) (rule new_s3_bucket_ELB_015_creates)
  have run: "remediate_ELB_015 elbv2 s3 alert
      = (fst ?tail, Call (DescribeLoadBalancers [elb_name])
           # Call (DescribeLoadBalancerAttributesV2 elb_arn) # snd ?tail)"
    using h by (simp add: remediate_ELB_015_def scan run_simps Let_def)
  from tail show "CreateBucket ''private'' (''elbv2logs-'' @ account_id @ ''-'' @ alert_region alert)
              (if alert_region alert = ''us-east-1'' then None else Some (alert_region alert))
            \<in> set (calls (snd (remediate_ELB_015 elbv2 s3 alert)))"
    by (simp add: run)
qed

theorem missing_record_or_field_witness:
  "remediate_RDS_005 \<lparr>describe_db_instances = (\<lambda>resource. Inr
     \<lparr>DBInstances = Some []\<rparr>), modify_db_instance = (\<lambda>instance public. Inr
     ())\<rparr> \<lparr>alert_resource_id = ''db-ABCDEFGH'', alert_region =
     ''eu-west-1''\<rparr> = (Inr (), [Call (DescribeDBInstances ''db-ABCDEFGH'')])
   \<and> remediate_ELB_015 \<lparr>describe_load_balancers = (\<lambda>names. Inr
     \<lparr>LoadBalancers = Some []\<rparr>), describe_load_balancer_attributes_v2 =
     (\<lambda>arn. Inr \<lparr>Attributes = Some (map attribute [(''access_logs.s3.enabled'',
     ''false''), (''idle_timeout.timeout_seconds'', ''60'')])\<rparr>),
     modify_load_balancer_attributes_v2 = (\<lambda>arn attributes. Inr ())\<rparr>
     \<lparr>create_bucket = (\<lambda>acl bucket location. Inr ()), put_object =
     (\<lambda>bucket key. Inr ()), put_bucket_policy = (\<lambda>bucket policy. Inr ())\<rparr>
     \<lparr>alert_resource_id = ''arn:aws:elb:us-west-2:111122223333:lb/app/myelb/abc123'',
     alert_region = ''us-west-2''\<rparr> = (Inr (), [Call (DescribeLoadBalancers [''myelb'']),
     Print ''Error: Unable to find the ARN for Application ELB myelb.''])
   \<and> CreateBucket ''private'' ''elbv2logs-111122223333-us-west-2'' (Some ''us-west-2'') \<in>
     set (calls (snd (remediate_ELB_015 \<lparr>describe_load_balancers = (\<lambda>names. Inr
     \<lparr>LoadBalancers = Some [\<lparr>LoadBalancerArn = Some
     ''arn:aws:elb:us-west-2:111122223333:lb/app/myelb/abc123''\<rparr>]\<rparr>),
     describe_load_balancer_attributes_v2 = (\<lambda>arn. Inr \<lparr>Attributes = Some (map
     attribute [(''idle_timeout.timeout_seconds'', ''60'')])\<rparr>),
     modify_load_balancer_attributes_v2 = (\<lambda>arn attributes. Inr ())\<rparr>
     \<lparr>create_bucket = (\<lambda>acl bucket location. Inr ()), put_object =
     (\<lambda>bucket key. Inr ()), put_bucket_policy = (\<lambda>bucket policy. Inr ())\<rparr>
     \<lparr>alert_resource_id = ''arn:aws:elb:us-west-2:111122223333:lb/app/myelb/abc123'',
     alert_region = ''us-west-2''\<rparr>)))"
proof -
  have h1: "describe_db_instances \<lparr>describe_db_instances = (\<lambda>resource. Inr
      \<lparr>DBInstances = Some []\<rparr>), modify_db_instance = (\<lambda>instance public.
      Inr ())\<rparr> (alert_resource_id \<lparr>alert_resource_id = ''db-ABCDEFGH'',
      alert_region = ''eu-west-1''\<rparr>) = Inr \<lparr>DBInstances = Some []\<rparr> \<and>
      DBInstances \<lparr>DBInstances = Some []\<rparr> = Some [] \<and> (\<forall>i others. []
      = i # others \<longrightarrow> PubliclyAccessible i = None)"
    by simp
  have c1: "remediate_RDS_005 \<lparr>describe_db_instances = (\<lambda>resource. Inr
      \<lparr>DBInstances = Some []\<rparr>), modify_db_instance = (\<lambda>instance public.
      Inr ())\<rparr> \<lparr>alert_resource_id = ''db-ABCDEFGH'', alert_region =
      ''eu-west-1''\<rparr> = (Inr (), [Call (DescribeDBInstances ''db-ABCDEFGH'')])"
    using missing_record_or_field [THEN conjunct1, THEN mp, OF h1]
    by simp
  have h2: "py_split CHR ''/'' (alert_resource_id \<lparr>alert_resource_id =
      ''arn:aws:elb:us-west-2:111122223333:lb/app/myelb/abc123'', alert_region =
      ''us-west-2''\<rparr>) = ''arn:aws:elb:us-west-2:111122223333:lb'' # ''app'' # ''myelb'' #
      [''abc123''] \<and> describe_load_balancers \<lparr>describe_load_balancers =
      (\<lambda>names. Inr \<lparr>LoadBalancers = Some []\<rparr>),
      describe_load_balancer_attributes_v2 = (\<lambda>arn. Inr \<lparr>Attributes = Some (map
      attribute [(''access_logs.s3.enabled'', ''false''), (''idle_timeout.timeout_seconds'',
      ''60'')])\<rparr>), modify_load_balancer_attributes_v2 = (\<lambda>arn attributes. Inr
      ())\<rparr> [''myelb''] = Inr \<lparr>LoadBalancers = Some []\<rparr> \<and> LoadBalancers
      \<lparr>LoadBalancers = Some []\<rparr> = Some [] \<and> (\<forall>lb others. [] = lb #
      others \<longrightarrow> LoadBalancerArn lb = None)"
    by simp
  have c2: "remediate_ELB_015 \<lparr>describe_load_balancers = (\<lambda>names. Inr
      \<lparr>LoadBalancers = Some []\<rparr>), describe_load_balancer_attributes_v2 =
      (\<lambda>arn. Inr \<lparr>Attributes = Some (map attribute [(''access_logs.s3.enabled'',
      ''false''), (''idle_timeout.timeout_seconds'', ''60'')])\<rparr>),
      modify_load_balancer_attributes_v2 = (\<lambda>arn attributes. Inr ())\<rparr>
      \<lparr>create_bucket = (\<lambda>acl bucket location. Inr ()), put_object =
      (\<lambda>bucket key. Inr ()), put_bucket_policy = (\<lambda>bucket policy. Inr
      ())\<rparr> \<lparr>alert_resource_id =
      ''arn:aws:elb:us-west-2:111122223333:lb/app/myelb/abc123'', alert_region =
      ''us-west-2''\<rparr> = (Inr (), [Call (DescribeLoadBalancers [''myelb'']), Print
      ''Error: Unable to find the ARN for Application ELB myelb.''])"
    using missing_record_or_field [THEN conjunct2, THEN conjunct1, THEN mp, OF h2]
    by simp
  have h3: "py_split CHR ''/'' (alert_resource_id \<lparr>alert_resource_id =
      ''arn:aws:elb:us-west-2:111122223333:lb/app/myelb/abc123'', alert_region =
      ''us-west-2''\<rparr>) = ''arn:aws:elb:us-west-2:111122223333:lb'' # ''app'' # ''myelb'' #
      [''abc123''] \<and> describe_load_balancers \<lparr>describe_load_balancers =
      (\<lambda>names. Inr \<lparr>LoadBalancers = Some [\<lparr>LoadBalancerArn = Some
      ''arn:aws:elb:us-west-2:111122223333:lb/app/myelb/abc123''\<rparr>]\<rparr>),
      describe_load_balancer_attributes_v2 = (\<lambda>arn. Inr \<lparr>Attributes = Some (map
      attribute [(''idle_timeout.timeout_seconds'', ''60'')])\<rparr>),
      modify_load_balancer_attributes_v2 = (\<lambda>arn attributes. Inr ())\<rparr> [''myelb'']
      = Inr \<lparr>LoadBalancers = Some [\<lparr>LoadBalancerArn = Some
      ''arn:aws:elb:us-west-2:111122223333:lb/app/myelb/abc123''\<rparr>]\<rparr> \<and>
      LoadBalancers \<lparr>LoadBalancers = Some [\<lparr>LoadBalancerArn = Some
      ''arn:aws:elb:us-west-2:111122223333:lb/app/myelb/abc123''\<rparr>]\<rparr> = Some
      (\<lparr>LoadBalancerArn = Some
      ''arn:aws:elb:us-west-2:111122223333:lb/app/myelb/abc123''\<rparr> # []) \<and>
      LoadBalancerArn \<lparr>LoadBalancerArn = Some
      ''arn:aws:elb:us-west-2:111122223333:lb/app/myelb/abc123''\<rparr> = Some
      ''arn:aws:elb:us-west-2:111122223333:lb/app/myelb/abc123'' \<and> py_split CHR '':''
      ''arn:aws:elb:us-west-2:111122223333:lb/app/myelb/abc123'' = ''arn'' # ''aws'' # ''elb'' #
      ''us-west-2'' # ''111122223333'' # [''lb/app/myelb/abc123''] \<and>
      describe_load_balancer_attributes_v2 \<lparr>describe_load_balancers = (\<lambda>names.
      Inr \<lparr>LoadBalancers = Some [\<lparr>LoadBalancerArn = Some
      ''arn:aws:elb:us-west-2:111122223333:lb/app/myelb/abc123''\<rparr>]\<rparr>),
      describe_load_balancer_attributes_v2 = (\<lambda>arn. Inr \<lparr>Attributes = Some (map
      attribute [(''idle_timeout.timeout_seconds'', ''60'')])\<rparr>),
      modify_load_balancer_attributes_v2 = (\<lambda>arn attributes. Inr ())\<rparr>
      ''arn:aws:elb:us-west-2:111122223333:lb/app/myelb/abc123'' = Inr \<lparr>Attributes = Some
      (map attribute [(''idle_timeout.timeout_seconds'', ''60'')])\<rparr> \<and> Attributes
      \<lparr>Attributes = Some (map attribute [(''idle_timeout.timeout_seconds'',
      ''60'')])\<rparr> = Some (map attribute [(''idle_timeout.timeout_seconds'', ''60'')])
      \<and> map_of (rev [(''idle_timeout.timeout_seconds'', ''60'')])
      ''access_logs.s3.enabled'' = None"
    by simp
  have c3: "CreateBucket ''private'' ''elbv2logs-111122223333-us-west-2'' (Some ''us-west-2'') \<in>
      set (calls (snd (remediate_ELB_015 \<lparr>describe_load_balancers = (\<lambda>names. Inr
      \<lparr>LoadBalancers = Some [\<lparr>LoadBalancerArn = Some
      ''arn:aws:elb:us-west-2:111122223333:lb/app/myelb/abc123''\<rparr>]\<rparr>),
      describe_load_balancer_attributes_v2 = (\<lambda>arn. Inr \<lparr>Attributes = Some (map
      attribute [(''idle_timeout.timeout_seconds'', ''60'')])\<rparr>),
      modify_load_balancer_attributes_v2 = (\<lambda>arn attributes. Inr ())\<rparr>
      \<lparr>create_bucket = (\<lambda>acl bucket location. Inr ()), put_object =
      (\<lambda>bucket key. Inr ()), put_bucket_policy = (\<lambda>bucket policy. Inr
      ())\<rparr> \<lparr>alert_resource_id =
      ''arn:aws:elb:us-west-2:111122223333:lb/app/myelb/abc123'', alert_region =
      ''us-west-2''\<rparr>)))"
    using missing_record_or_field [THEN conjunct2, THEN conjunct2, THEN mp, OF h3]
    by simp
  from c1 c2 c3 show ?thesis by (intro conjI)
qed

text \<open>
  The claim as stated fails for a v2 load balancer whose attribute list is empty: the
  field the decision needs is missing, and the runbook issues four mutating calls.
\<close>

theorem missing_attribute_counterexample:
  "mutations (snd (remediate_ELB_015 \<lparr>describe_load_balancers = (\<lambda>names. Inr
     \<lparr>LoadBalancers = Some [\<lparr>LoadBalancerArn = Some
     ''arn:aws:elb:us-west-2:111122223333:lb/app/myelb/abc123''\<rparr>]\<rparr>),
     describe_load_balancer_attributes_v2 = (\<lambda>arn. Inr \<lparr>Attributes = Some
     []\<rparr>), modify_load_balancer_attributes_v2 = (\<lambda>arn attributes. Inr ())\<rparr>
     \<lparr>create_bucket = (\<lambda>acl bucket location. Inr ()), put_object =
     (\<lambda>bucket key. Inr ()), put_bucket_policy = (\<lambda>bucket policy. Inr ())\<rparr>
     \<lparr>alert_resource_id = ''arn:aws:elb:us-west-2:111122223333:lb/app/myelb/abc123'',
     alert_region = ''us-west-2''\<rparr>)) = [CreateBucket ''private''
     ''elbv2logs-111122223333-us-west-2'' (Some ''us-west-2''), PutObject
     ''elbv2logs-111122223333-us-west-2'' ''myelb/'', PutBucketPolicy
     ''elbv2logs-111122223333-us-west-2'' (BucketPolicy_ELB_015
     ''elbv2logs-111122223333-us-west-2'' ''111122223333'' ''us-west-2''),
     ModifyLoadBalancerAttributesV2 ''arn:aws:elb:us-west-2:111122223333:lb/app/myelb/abc123''
     [\<lparr>Key = Some ''access_logs.s3.enabled'', Value = Some ''true''\<rparr>, \<lparr>Key
     = Some ''access_logs.s3.bucket'', Value = Some
     ''elbv2logs-111122223333-us-west-2''\<rparr>, \<lparr>Key = Some ''access_logs.s3.prefix'',
     Value = Some ''myelb''\<rparr>]]"
  by (simp add: remediate_ELB_015_def new_s3_bucket_ELB_015_def enable_access_log_ELB_015_def
      mutations_def run_simps Let_def)

end
